theory Spec2Isabelle
  imports Main "HOL-Library.Word"
begin

unbundle bit_operations_syntax

section \<open>Directory operations of the Ceph kernel client (src/kernel/dir.c)\<close>

text \<open>
  The embedding follows \<^verbatim>\<open>src/kernel/dir.c\<close>. Pointers to dentries and inodes are
  indices into two stores; a C pointer that may be \<^verbatim>\<open>NULL\<close> is an \<open>option\<close>.
  Dereferencing \<^verbatim>\<open>NULL\<close> is the fault \<open>NullDeref\<close>, a loop that has not finished
  within its bound is the fault \<open>OutOfFuel\<close>. Debug output (\<^verbatim>\<open>dout\<close>, \<^verbatim>\<open>derr\<close>)
  and reference counting (\<^verbatim>\<open>dget\<close>, \<^verbatim>\<open>dput\<close>, \<^verbatim>\<open>atomic_inc\<close>,
  \<^verbatim>\<open>ceph_mdsc_put_request\<close>) are left out.
\<close>

subsection \<open>Machine integers and constants\<close>

type_synonym u32 = "32 word"
type_synonym u64 = "64 word"
type_synonym loff_t = "64 word"

text \<open>The errno values of Linux; the functions return their negations.\<close>

definition ENOENT :: int where "ENOENT = 2"
definition ENOMEM :: int where "ENOMEM = 12"
definition EINVAL :: int where "EINVAL = 22"
definition ENAMETOOLONG :: int where "ENAMETOOLONG = 36"
definition ESTALE :: int where "ESTALE = 116"
definition NAME_MAX :: nat where "NAME_MAX = 255"

text \<open>The file type bits of \<^verbatim>\<open>i_mode\<close> (octal 0170000 and 0040000).\<close>

definition S_IFMT :: u32 where "S_IFMT = 0xF000"
definition S_IFDIR :: u32 where "S_IFDIR = 0x4000"

subsection \<open>File positions: \<^verbatim>\<open>make_fpos\<close>, \<^verbatim>\<open>fpos_frag\<close>, \<^verbatim>\<open>fpos_off\<close>\<close>

text \<open>
  \<^verbatim>\<open>loff_t\<close> is a signed 64-bit integer, \<^verbatim>\<open>unsigned\<close> has 32 bits. The cast
  \<^verbatim>\<open>(loff_t)frag\<close> zero-extends, \<^verbatim>\<open>p >> 32\<close> on the signed value is the
  arithmetic shift, and the conversion of the result to \<^verbatim>\<open>unsigned\<close> keeps the low
  32 bits. A fragment with its top bit set gives a negative position: the left shift is
  the two's complement shift of the kernel's compiler.
\<close>

definition make_fpos :: "u32 \<Rightarrow> u32 \<Rightarrow> loff_t" where
  "make_fpos frag off = push_bit 32 (ucast frag :: loff_t) OR (ucast off :: loff_t)"

definition fpos_frag :: "loff_t \<Rightarrow> u32" where
  "fpos_frag p = ucast (signed_drop_bit 32 p)"

definition fpos_off :: "loff_t \<Rightarrow> u32" where
  "fpos_off p = ucast (p AND 0xffffffff)"

subsection \<open>Dentries, inodes and the cache state\<close>

type_synonym dref = nat
type_synonym iref = nat

datatype fault = NullDeref | OutOfFuel

text \<open>
  The lease bits of \<^verbatim>\<open>ceph_fs.h\<close> (not part of these sources) are distinct single
  bits; a mask built with \<^verbatim>\<open>|\<close> is the set of its bits.
\<close>

datatype lock = CEPH_LOCK_DN | CEPH_LOCK_ICONTENT | CEPH_LOCK_ILINK

record inode =
  i_ino :: u64
  ceph_ino :: u64
  i_mode :: u32
  i_nlink :: u32
  i_version :: u64

record dentry =
  d_name :: string
  d_parent :: "dref option"
  d_inode :: "iref option"
  d_time :: u64
  d_hashed :: bool

text \<open>
  \<open>ceph_inode_lease_valid\<close> and \<open>ceph_dentry_lease_valid\<close> are defined outside
  \<^verbatim>\<open>dir.c\<close>; their answers are part of the state. \<open>d_next\<close> is the next dentry
  that \<^verbatim>\<open>d_alloc\<close> hands out.
\<close>

record fs =
  dentries :: "dref \<Rightarrow> dentry"
  inodes :: "iref \<Rightarrow> inode"
  d_next :: dref
  ceph_inode_lease_valid :: "iref \<Rightarrow> lock \<Rightarrow> bool"
  ceph_dentry_lease_valid :: "dref \<Rightarrow> bool"

definition IS_ROOT :: "fs \<Rightarrow> dref \<Rightarrow> bool" where
  "IS_ROOT s x = (d_parent (dentries s x) = Some x)"

text \<open>
  The dcache primitives of the VFS that \<^verbatim>\<open>dir.c\<close> calls: \<^verbatim>\<open>d_drop\<close> takes a
  dentry out of the hash and \<^verbatim>\<open>d_rehash\<close> puts it in, \<^verbatim>\<open>d_instantiate\<close> sets
  the inode, \<^verbatim>\<open>d_add\<close> does both, \<^verbatim>\<open>d_alloc\<close> makes a new dentry without an
  inode outside the hash, and \<^verbatim>\<open>d_move\<close> gives the old dentry the name and parent
  of the new one and drops the new one, which takes the old name and parent.
\<close>

definition d_drop :: "fs \<Rightarrow> dref \<Rightarrow> fs" where
  "d_drop s x = s\<lparr>dentries := (dentries s)(x := (dentries s x)\<lparr>d_hashed := False\<rparr>)\<rparr>"

definition d_rehash :: "fs \<Rightarrow> dref \<Rightarrow> fs" where
  "d_rehash s x = s\<lparr>dentries := (dentries s)(x := (dentries s x)\<lparr>d_hashed := True\<rparr>)\<rparr>"

definition d_instantiate :: "fs \<Rightarrow> dref \<Rightarrow> iref option \<Rightarrow> fs" where
  "d_instantiate s x i = s\<lparr>dentries := (dentries s)(x := (dentries s x)\<lparr>d_inode := i\<rparr>)\<rparr>"

definition d_add :: "fs \<Rightarrow> dref \<Rightarrow> iref option \<Rightarrow> fs" where
  "d_add s x i = d_rehash (d_instantiate s x i) x"

definition d_alloc :: "fs \<Rightarrow> dref option \<Rightarrow> string \<Rightarrow> fs \<times> dref" where
  "d_alloc s parent name =
     (s\<lparr>dentries := (dentries s)(d_next s :=
            \<lparr>d_name = name,
             d_parent = (case parent of None \<Rightarrow> Some (d_next s) | Some p \<Rightarrow> Some p),
             d_inode = None, d_time = 0, d_hashed = False\<rparr>),
        d_next := Suc (d_next s)\<rparr>,
      d_next s)"

definition d_move :: "fs \<Rightarrow> dref \<Rightarrow> dref \<Rightarrow> fs" where
  "d_move s old new =
     (let od = dentries s old; nd = dentries s new in
      s\<lparr>dentries := (dentries s)
           (new := nd\<lparr>d_name := d_name od,
                      d_parent := (if IS_ROOT s old then Some new else d_parent od),
                      d_hashed := False\<rparr>,
            old := od\<lparr>d_name := d_name nd,
                      d_parent := d_parent nd,
                      d_hashed := True\<rparr>)\<rparr>)"

definition inc_nlink :: "fs \<Rightarrow> iref \<Rightarrow> fs" where
  "inc_nlink s i = s\<lparr>inodes := (inodes s)(i := (inodes s i)\<lparr>i_nlink := i_nlink (inodes s i) + 1\<rparr>)\<rparr>"

definition drop_nlink :: "fs \<Rightarrow> iref \<Rightarrow> fs" where
  "drop_nlink s i = s\<lparr>inodes := (inodes s)(i := (inodes s i)\<lparr>i_nlink := i_nlink (inodes s i) - 1\<rparr>)\<rparr>"

subsection \<open>\<^verbatim>\<open>ceph_dentry_revalidate\<close>\<close>

text \<open>
  \<^verbatim>\<open>dir = dentry->d_parent->d_inode\<close> is read first, then
  \<^verbatim>\<open>ceph_inode(dir)->i_version\<close>; both pointers are dereferenced unchecked.
\<close>

definition ceph_dentry_revalidate :: "fs \<Rightarrow> dref \<Rightarrow> fault + (fs \<times> bool)" where
  "ceph_dentry_revalidate s dentry =
     (case d_parent (dentries s dentry) of
        None \<Rightarrow> Inl NullDeref
      | Some p \<Rightarrow>
          (case d_inode (dentries s p) of
             None \<Rightarrow> Inl NullDeref
           | Some dir \<Rightarrow>
               if i_version (inodes s dir) = d_time (dentries s dentry) \<and>
                  ceph_inode_lease_valid s dir CEPH_LOCK_ICONTENT
               then Inr (s, True)
               else if ceph_dentry_lease_valid s dentry then Inr (s, True)
               else Inr (d_drop s dentry, False)))"

subsection \<open>\<^verbatim>\<open>ceph_build_dentry_path\<close>\<close>

text \<open>
  The result of \<^verbatim>\<open>ceph_build_dentry_path\<close>: an error pointer, or the path with the
  values stored through \<^verbatim>\<open>plen\<close> and \<^verbatim>\<open>base\<close>.
\<close>

datatype path_ptr = ERR_PTR int | Path string int u64

text \<open>
  The first loop. \<open>len\<close> is a C \<^verbatim>\<open>int\<close>; a path never comes near \<open>2^31\<close> bytes,
  so it is an unbounded \<open>int\<close> here. The result \<open>None\<close> is the return of
  \<^verbatim>\<open>ERR_PTR(-EINVAL)\<close> for a corrupt dentry, \<open>Some len\<close> the length at the end of
  the loop.
\<close>

fun first_pass :: "nat \<Rightarrow> fs \<Rightarrow> dref \<Rightarrow> int \<Rightarrow> fault + (fs \<times> int option)" where
  "first_pass 0 s temp len = Inl OutOfFuel"
| "first_pass (Suc n) s temp len =
     (if IS_ROOT s temp then Inr (s, Some len)
      else
        (case (if d_inode (dentries s temp) \<noteq> None then ceph_dentry_revalidate s temp
               else Inr (s, True)) of
           Inl f \<Rightarrow> Inl f
         | Inr (s', valid) \<Rightarrow>
             if \<not> valid then Inr (s', Some len)
             else
               (case d_parent (dentries s' temp) of
                  None \<Rightarrow> Inr (s', None)
                | Some p \<Rightarrow>
                    first_pass n s' p (len + 1 + int (length (d_name (dentries s' temp)))))))"

text \<open>
  The second loop fills the buffer from its end. \<open>path\<close> is the part of the buffer
  written so far, the bytes from \<open>pos\<close> up to the trailing null;
  \<^verbatim>\<open>strncpy(path + pos, name, len)\<close> puts the name in front of it and
  \<^verbatim>\<open>path[--pos] = '/'\<close> a separator. The result \<open>None\<close> is the corrupt dentry
  again; otherwise the loop ends at \<open>temp\<close> with \<open>pos\<close> (negative after the
  \<^verbatim>\<open>break\<close>).
\<close>

fun second_pass :: "nat \<Rightarrow> fs \<Rightarrow> dref \<Rightarrow> int \<Rightarrow> string \<Rightarrow> fault + (dref \<times> int \<times> string) option" where
  "second_pass 0 s temp pos path = Inl OutOfFuel"
| "second_pass (Suc n) s temp pos path =
     (if \<not> IS_ROOT s temp \<and> pos \<noteq> 0 then
        (let name = d_name (dentries s temp); pos1 = pos - int (length name) in
         if pos1 < 0 then Inr (Some (temp, pos1, path))
         else
           (let path1 = name @ path;
                pos2 = (if pos1 \<noteq> 0 then pos1 - 1 else pos1);
                path2 = (if pos1 \<noteq> 0 then CHR ''/'' # path1 else path1)
            in case d_parent (dentries s temp) of
                 None \<Rightarrow> Inr None
               | Some p \<Rightarrow> second_pass n s p pos2 path2))
      else Inr (Some (temp, pos, path)))"

text \<open>
  One element of the environment per attempt of the \<^verbatim>\<open>retry\<close> loop: whether
  \<^verbatim>\<open>kmalloc\<close> succeeds, and what other threads do to the cache between the two
  loops (the function does not lock the dentries above it). When the attempts are used up
  the function has not returned.
\<close>

record attempt =
  kmalloc_ok :: bool
  racing :: "fs \<Rightarrow> fs"

fun build_retry :: "nat \<Rightarrow> attempt list \<Rightarrow> fs \<Rightarrow> dref \<Rightarrow> fault + (fs \<times> path_ptr)" where
  "build_retry n [] s dentry = Inl OutOfFuel"
| "build_retry n (a # as) s dentry =
     (case first_pass n s dentry 0 of
        Inl f \<Rightarrow> Inl f
      | Inr (s1, None) \<Rightarrow> Inr (s1, ERR_PTR (- EINVAL))
      | Inr (s1, Some len0) \<Rightarrow>
          (let len = (if len0 \<noteq> 0 then len0 - 1 else len0) in
           if \<not> kmalloc_ok a then Inr (s1, ERR_PTR (- ENOMEM))
           else
             (let s2 = racing a s1 in
              case second_pass n s2 dentry len [] of
                Inl f \<Rightarrow> Inl f
              | Inr None \<Rightarrow> Inr (s2, ERR_PTR (- EINVAL))
              | Inr (Some (temp, pos, path)) \<Rightarrow>
                  if pos \<noteq> 0 then build_retry n as s2 dentry
                  else
                    (case d_inode (dentries s2 temp) of
                       None \<Rightarrow> Inl NullDeref
                     | Some i \<Rightarrow> Inr (s2, Path path len (ceph_ino (inodes s2 i)))))))"

definition ceph_build_dentry_path ::
  "nat \<Rightarrow> attempt list \<Rightarrow> fs \<Rightarrow> dref option \<Rightarrow> fault + (fs \<times> path_ptr)" where
  "ceph_build_dentry_path n as s dentry =
     (case dentry of
        None \<Rightarrow> Inr (s, ERR_PTR (- EINVAL))
      | Some d \<Rightarrow> build_retry n as s d)"

subsection \<open>Requests to the metadata server\<close>

datatype opcode =
    CEPH_MDS_OP_LSTAT | CEPH_MDS_OP_READDIR | CEPH_MDS_OP_MKNOD | CEPH_MDS_OP_SYMLINK
  | CEPH_MDS_OP_MKDIR | CEPH_MDS_OP_LINK | CEPH_MDS_OP_UNLINK | CEPH_MDS_OP_RMDIR
  | CEPH_MDS_OP_RENAME

datatype mds_mode = USE_AUTH_MDS | USE_ANY_MDS | USE_CAP_MDS

text \<open>The \<^verbatim>\<open>args\<close> union of the request head.\<close>

datatype req_args = NoArgs | StatArgs u32 | MknodArgs u32 u32 | MkdirArgs u32 | ReaddirArgs u32

text \<open>One entry of a readdir reply: name, inode number and mode.\<close>

record dir_item =
  dir_dname :: string
  dir_ino :: u64
  dir_mode :: u32

text \<open>
  A request with the fields \<^verbatim>\<open>dir.c\<close> reads or writes. \<open>trace_numd\<close> and
  \<open>dir_items\<close> stand for \<^verbatim>\<open>r_reply_info\<close>.
\<close>

record request =
  r_op :: opcode
  r_ino1 :: u64
  r_path1 :: "string option"
  r_ino2 :: u64
  r_path2 :: "string option"
  r_ref_dentry :: dref
  r_mode :: mds_mode
  r_args :: req_args
  r_last_dentry :: "dref option"
  r_old_dentry :: "dref option"
  r_direct_hash :: u32
  r_direct_is_hash :: bool
  trace_numd :: nat
  dir_items :: "dir_item list"

text \<open>
  What \<^verbatim>\<open>ceph_mdsc_do_request\<close> leaves behind: its return value, the reply
  information, \<^verbatim>\<open>r_last_dentry\<close> (the reply handler may splice another dentry in)
  and the cache after the reply has been applied.
\<close>

record reply =
  reply_err :: int
  reply_trace_numd :: nat
  reply_dir_items :: "dir_item list"
  reply_last_dentry :: "dref option"
  reply_fs :: fs

text \<open>
  The parts of the client outside \<^verbatim>\<open>dir.c\<close>: the bound of the walks and the
  attempts of path construction, whether the allocation of a request fails, the answer of
  the metadata server, \<^verbatim>\<open>ceph_init_dentry\<close> and the constant
  \<^verbatim>\<open>CEPH_STAT_MASK_INODE_ALL\<close>.
\<close>

record env =
  walk_fuel :: nat
  attempts :: "attempt list"
  create_request_error :: "opcode \<Rightarrow> int option"
  mds :: "fs \<Rightarrow> request \<Rightarrow> reply"
  ceph_init_dentry :: "dentry \<Rightarrow> dentry"
  CEPH_STAT_MASK_INODE_ALL :: u32

text \<open>
  The calls that leave the client, in program order: a lease released with
  \<^verbatim>\<open>ceph_mdsc_lease_release\<close> (inode, dentry, mask) and a request handed to
  \<^verbatim>\<open>ceph_mdsc_do_request\<close>.
\<close>

datatype event = LeaseRelease iref "dref option" "lock set" | Dispatch request

text \<open>
  Modelled from the spec: \<^verbatim>\<open>ceph_mdsc_create_request\<close> and
  \<^verbatim>\<open>ceph_mdsc_do_request\<close> are defined outside \<^verbatim>\<open>dir.c\<close>. A request is
  the operation descriptor of the opcode, the two operands, the dentry and the replica
  policy it is created with, or an error pointer; executing it hands it to the server
  once and gives the reply.
\<close>

definition ceph_mdsc_create_request ::
  "env \<Rightarrow> opcode \<Rightarrow> u64 \<Rightarrow> string option \<Rightarrow> u64 \<Rightarrow> string option \<Rightarrow> dref \<Rightarrow> mds_mode \<Rightarrow> int + request" where
  "ceph_mdsc_create_request e op ino1 path1 ino2 path2 ref mode =
     (case create_request_error e op of
        Some err \<Rightarrow> Inl err
      | None \<Rightarrow>
          Inr \<lparr>r_op = op, r_ino1 = ino1, r_path1 = path1, r_ino2 = ino2, r_path2 = path2,
               r_ref_dentry = ref, r_mode = mode, r_args = NoArgs, r_last_dentry = None,
               r_old_dentry = None, r_direct_hash = 0, r_direct_is_hash = False,
               trace_numd = 0, dir_items = []\<rparr>)"

definition ceph_mdsc_do_request :: "env \<Rightarrow> fs \<Rightarrow> request \<Rightarrow> fs \<times> event list \<times> request \<times> int" where
  "ceph_mdsc_do_request e s req =
     (let r = mds e s req in
      (reply_fs r, [Dispatch req],
       req\<lparr>trace_numd := reply_trace_numd r, dir_items := reply_dir_items r,
           r_last_dentry := reply_last_dentry r\<rparr>,
       reply_err r))"

subsection \<open>Lookup\<close>

text \<open>A \<^verbatim>\<open>struct dentry *\<close> result: an error pointer, \<^verbatim>\<open>NULL\<close> or a dentry.\<close>

datatype dentry_ptr = D_ERR int | D_NULL | D_PTR dref

definition ceph_finish_lookup :: "env \<Rightarrow> fs \<Rightarrow> request \<Rightarrow> dref \<Rightarrow> int \<Rightarrow> fs \<times> request \<times> dentry_ptr" where
  "ceph_finish_lookup e s req dentry err =
     (let (s1, req1, err1) =
        (if err = - ENOENT then
           (if trace_numd req = 0 then
              (let s' = s\<lparr>dentries := (dentries s)(dentry := ceph_init_dentry e (dentries s dentry))\<rparr> in
               if d_inode (dentries s' dentry) \<noteq> None then
                 (let s'' = d_drop s' dentry;
                      (s3, new) = d_alloc s'' (d_parent (dentries s'' dentry))
                                    (d_name (dentries s'' dentry))
                  in (d_rehash s3 new, req\<lparr>r_last_dentry := Some new\<rparr>, 0))
               else (d_add s' dentry None, req, 0))
            else (s, req, 0))
         else (s, req, err))
      in if err1 \<noteq> 0 then (s1, req1, D_ERR err1)
         else if Some dentry \<noteq> r_last_dentry req1 then
           (s1, req1, case r_last_dentry req1 of None \<Rightarrow> D_NULL | Some d \<Rightarrow> D_PTR d)
         else (s1, req1, D_NULL))"

definition ceph_do_lookup ::
  "env \<Rightarrow> fs \<Rightarrow> dref \<Rightarrow> u32 \<Rightarrow> bool \<Rightarrow> fault + (fs \<times> event list \<times> dentry_ptr)" where
  "ceph_do_lookup e s dentry stat_mask on_inode =
     (if length (d_name (dentries s dentry)) > NAME_MAX then Inr (s, [], D_ERR (- ENAMETOOLONG))
      else
        (case (if on_inode then
                 (case d_inode (dentries s dentry) of
                    None \<Rightarrow> Inl NullDeref
                  | Some i \<Rightarrow>
                      Inr (s, ceph_mdsc_create_request e CEPH_MDS_OP_LSTAT (ceph_ino (inodes s i))
                                None 0 None dentry USE_CAP_MDS))
               else
                 (case ceph_build_dentry_path (walk_fuel e) (attempts e) s (Some dentry) of
                    Inl f \<Rightarrow> Inl f
                  | Inr (s1, ERR_PTR err) \<Rightarrow> Inr (s1, Inl err)
                  | Inr (s1, Path path pathlen pathbase) \<Rightarrow>
                      Inr (s1, ceph_mdsc_create_request e CEPH_MDS_OP_LSTAT pathbase (Some path)
                                 0 None dentry USE_ANY_MDS))) of
           Inl f \<Rightarrow> Inl f
         | Inr (s1, Inl err) \<Rightarrow> Inr (s1, [], D_ERR err)
         | Inr (s1, Inr req) \<Rightarrow>
             (let req1 = req\<lparr>r_args := StatArgs stat_mask, r_last_dentry := Some dentry\<rparr>;
                  (s2, evs, req2, err) = ceph_mdsc_do_request e s1 req1;
                  (s3, req3, d) = ceph_finish_lookup e s2 req2 dentry err
              in Inr (s3, evs, d))))"

subsection \<open>The mutating operations\<close>

text \<open>
  Each operation returns the cache, the calls that left the client and the \<^verbatim>\<open>int\<close>
  result. In \<^verbatim>\<open>ceph_mknod\<close>, a lookup that returns a pointer sets
  \<^verbatim>\<open>err = -ESTALE\<close> and \<^verbatim>\<open>dentry = 0\<close>; the \<^verbatim>\<open>d_drop(dentry)\<close> that
  follows for \<^verbatim>\<open>err != 0\<close> then dereferences the null pointer.
\<close>

definition ceph_mknod :: "env \<Rightarrow> fs \<Rightarrow> iref \<Rightarrow> dref \<Rightarrow> u32 \<Rightarrow> u32 \<Rightarrow> fault + (fs \<times> event list \<times> int)" where
  "ceph_mknod e s dir dentry mode rdev =
     (case ceph_build_dentry_path (walk_fuel e) (attempts e) s (Some dentry) of
        Inl f \<Rightarrow> Inl f
      | Inr (s1, ERR_PTR err) \<Rightarrow> Inr (s1, [], err)
      | Inr (s1, Path path pathlen pathbase) \<Rightarrow>
          (case ceph_mdsc_create_request e CEPH_MDS_OP_MKNOD pathbase (Some path) 0 None dentry
                  USE_AUTH_MDS of
             Inl err \<Rightarrow> Inr (d_drop s1 dentry, [], err)
           | Inr req \<Rightarrow>
               (let rel = LeaseRelease dir None {CEPH_LOCK_ICONTENT};
                    req1 = req\<lparr>r_args := MknodArgs mode rdev\<rparr>;
                    (s2, evs, req2, err) = ceph_mdsc_do_request e s1 req1
                in case (if err = 0 \<and> trace_numd req2 = 0 then
                           (case ceph_do_lookup e s2 dentry (CEPH_STAT_MASK_INODE_ALL e) False of
                              Inl f \<Rightarrow> Inl f
                            | Inr (s3, evs', d) \<Rightarrow>
                                if d \<noteq> D_NULL then Inr (s3, evs', - ESTALE, None)
                                else Inr (s3, evs', err, Some dentry))
                         else Inr (s2, [], err, Some dentry)) of
                     Inl f \<Rightarrow> Inl f
                   | Inr (s3, evs', err', dentry') \<Rightarrow>
                       if err' \<noteq> 0 then
                         (case dentry' of
                            None \<Rightarrow> Inl NullDeref
                          | Some x \<Rightarrow> Inr (d_drop s3 x, rel # evs @ evs', err'))
                       else Inr (s3, rel # evs @ evs', err'))))"

definition ceph_symlink :: "env \<Rightarrow> fs \<Rightarrow> iref \<Rightarrow> dref \<Rightarrow> string \<Rightarrow> fault + (fs \<times> event list \<times> int)" where
  "ceph_symlink e s dir dentry dest =
     (case ceph_build_dentry_path (walk_fuel e) (attempts e) s (Some dentry) of
        Inl f \<Rightarrow> Inl f
      | Inr (s1, ERR_PTR err) \<Rightarrow> Inr (s1, [], err)
      | Inr (s1, Path path pathlen pathbase) \<Rightarrow>
          (case ceph_mdsc_create_request e CEPH_MDS_OP_SYMLINK pathbase (Some path) 0 (Some dest)
                  dentry USE_AUTH_MDS of
             Inl err \<Rightarrow> Inr (d_drop s1 dentry, [], err)
           | Inr req \<Rightarrow>
               (let rel = LeaseRelease dir None {CEPH_LOCK_ICONTENT};
                    (s2, evs, req2, err) = ceph_mdsc_do_request e s1 req
                in if err \<noteq> 0 then Inr (d_drop s2 dentry, rel # evs, err)
                   else Inr (s2, rel # evs, err))))"

definition ceph_mkdir :: "env \<Rightarrow> fs \<Rightarrow> iref \<Rightarrow> dref \<Rightarrow> u32 \<Rightarrow> fault + (fs \<times> event list \<times> int)" where
  "ceph_mkdir e s dir dentry mode =
     (case ceph_build_dentry_path (walk_fuel e) (attempts e) s (Some dentry) of
        Inl f \<Rightarrow> Inl f
      | Inr (s1, ERR_PTR err) \<Rightarrow> Inr (s1, [], err)
      | Inr (s1, Path path pathlen pathbase) \<Rightarrow>
          (case ceph_mdsc_create_request e CEPH_MDS_OP_MKDIR pathbase (Some path) 0 None dentry
                  USE_AUTH_MDS of
             Inl err \<Rightarrow> Inr (d_drop s1 dentry, [], err)
           | Inr req \<Rightarrow>
               (let rel = LeaseRelease dir None {CEPH_LOCK_ICONTENT};
                    req1 = req\<lparr>r_args := MkdirArgs mode\<rparr>;
                    (s2, evs, req2, err) = ceph_mdsc_do_request e s1 req1
                in if err < 0 then Inr (d_drop s2 dentry, rel # evs, err)
                   else Inr (s2, rel # evs, err))))"

definition ceph_link :: "env \<Rightarrow> fs \<Rightarrow> dref \<Rightarrow> iref \<Rightarrow> dref \<Rightarrow> fault + (fs \<times> event list \<times> int)" where
  "ceph_link e s old_dentry dir dentry =
     (case ceph_build_dentry_path (walk_fuel e) (attempts e) s (Some old_dentry) of
        Inl f \<Rightarrow> Inl f
      | Inr (s0, ERR_PTR err) \<Rightarrow> Inr (s0, [], err)
      | Inr (s0, Path oldpath oldpathlen oldpathbase) \<Rightarrow>
     (case ceph_build_dentry_path (walk_fuel e) (attempts e) s0 (Some dentry) of
        Inl f \<Rightarrow> Inl f
      | Inr (s1, ERR_PTR err) \<Rightarrow> Inr (s1, [], err)
      | Inr (s1, Path path pathlen pathbase) \<Rightarrow>
          (case ceph_mdsc_create_request e CEPH_MDS_OP_LINK pathbase (Some path)
                  oldpathbase (Some oldpath) dentry USE_AUTH_MDS of
             Inl err \<Rightarrow> Inr (d_drop s1 dentry, [], err)
           | Inr req \<Rightarrow>
               (let req1 = req\<lparr>r_last_dentry := Some dentry\<rparr>;
                    rel = LeaseRelease dir None {CEPH_LOCK_ICONTENT};
                    (s2, evs, req2, err) = ceph_mdsc_do_request e s1 req1
                in if err \<noteq> 0 then Inr (d_drop s2 dentry, rel # evs, err)
                   else if trace_numd req2 = 0 then
                     (case d_inode (dentries s2 old_dentry) of
                        None \<Rightarrow> Inl NullDeref
                      | Some inode \<Rightarrow>
                          Inr (d_instantiate (inc_nlink s2 inode) dentry (Some inode),
                               rel # evs, err))
                   else Inr (s2, rel # evs, err)))))"

definition unlink_op :: "u32 \<Rightarrow> opcode" where
  "unlink_op mode = (if mode AND S_IFMT = S_IFDIR then CEPH_MDS_OP_RMDIR else CEPH_MDS_OP_UNLINK)"

definition ceph_unlink :: "env \<Rightarrow> fs \<Rightarrow> iref \<Rightarrow> dref \<Rightarrow> fault + (fs \<times> event list \<times> int)" where
  "ceph_unlink e s dir dentry =
     (case d_inode (dentries s dentry) of
        None \<Rightarrow> Inl NullDeref
      | Some inode \<Rightarrow>
     (let op = unlink_op (i_mode (inodes s inode)) in
      case ceph_build_dentry_path (walk_fuel e) (attempts e) s (Some dentry) of
        Inl f \<Rightarrow> Inl f
      | Inr (s1, ERR_PTR err) \<Rightarrow> Inr (s1, [], err)
      | Inr (s1, Path path pathlen pathbase) \<Rightarrow>
          (case ceph_mdsc_create_request e op pathbase (Some path) 0 None dentry USE_AUTH_MDS of
             Inl err \<Rightarrow> Inr (s1, [], err)
           | Inr req \<Rightarrow>
               (let rels = [LeaseRelease dir (Some dentry) {CEPH_LOCK_DN, CEPH_LOCK_ICONTENT},
                            LeaseRelease inode None {CEPH_LOCK_ILINK}];
                    (s2, evs, req2, err) = ceph_mdsc_do_request e s1 req
                in if err = - ENOENT then Inr (s2, rels @ evs, err)
                   else if trace_numd req2 = 0 then
                     (case d_inode (dentries s2 dentry) of
                        None \<Rightarrow> Inl NullDeref
                      | Some i \<Rightarrow> Inr (drop_nlink s2 i, rels @ evs, err))
                   else Inr (s2, rels @ evs, err)))))"

definition ceph_rename ::
  "env \<Rightarrow> fs \<Rightarrow> iref \<Rightarrow> dref \<Rightarrow> iref \<Rightarrow> dref \<Rightarrow> fault + (fs \<times> event list \<times> int)" where
  "ceph_rename e s old_dir old_dentry new_dir new_dentry =
     (case ceph_build_dentry_path (walk_fuel e) (attempts e) s (Some old_dentry) of
        Inl f \<Rightarrow> Inl f
      | Inr (s0, ERR_PTR err) \<Rightarrow> Inr (s0, [], err)
      | Inr (s0, Path oldpath oldpathlen oldpathbase) \<Rightarrow>
     (case ceph_build_dentry_path (walk_fuel e) (attempts e) s0 (Some new_dentry) of
        Inl f \<Rightarrow> Inl f
      | Inr (s1, ERR_PTR err) \<Rightarrow> Inr (s1, [], err)
      | Inr (s1, Path newpath newpathlen newpathbase) \<Rightarrow>
          (case ceph_mdsc_create_request e CEPH_MDS_OP_RENAME oldpathbase (Some oldpath)
                  newpathbase (Some newpath) new_dentry USE_AUTH_MDS of
             Inl err \<Rightarrow> Inr (s1, [], err)
           | Inr req \<Rightarrow>
               (let req1 = req\<lparr>r_old_dentry := Some old_dentry, r_last_dentry := Some new_dentry\<rparr>;
                    rels = LeaseRelease old_dir (Some old_dentry) {CEPH_LOCK_DN, CEPH_LOCK_ICONTENT} #
                           (case d_inode (dentries s1 new_dentry) of
                              None \<Rightarrow> []
                            | Some i \<Rightarrow> [LeaseRelease i None {CEPH_LOCK_ILINK}]);
                    (s2, evs, req2, err) = ceph_mdsc_do_request e s1 req1
                in if err = 0 \<and> trace_numd req2 = 0 then
                     Inr (d_move s2 old_dentry new_dentry, rels @ evs, err)
                   else Inr (s2, rels @ evs, err)))))"

text \<open>
  The table \<^verbatim>\<open>ceph_dir_iops\<close>, with the entries whose functions are in
  \<^verbatim>\<open>dir.c\<close> in full.
\<close>

record inode_operations =
  iop_mknod :: "env \<Rightarrow> fs \<Rightarrow> iref \<Rightarrow> dref \<Rightarrow> u32 \<Rightarrow> u32 \<Rightarrow> fault + (fs \<times> event list \<times> int)"
  iop_symlink :: "env \<Rightarrow> fs \<Rightarrow> iref \<Rightarrow> dref \<Rightarrow> string \<Rightarrow> fault + (fs \<times> event list \<times> int)"
  iop_mkdir :: "env \<Rightarrow> fs \<Rightarrow> iref \<Rightarrow> dref \<Rightarrow> u32 \<Rightarrow> fault + (fs \<times> event list \<times> int)"
  iop_link :: "env \<Rightarrow> fs \<Rightarrow> dref \<Rightarrow> iref \<Rightarrow> dref \<Rightarrow> fault + (fs \<times> event list \<times> int)"
  iop_unlink :: "env \<Rightarrow> fs \<Rightarrow> iref \<Rightarrow> dref \<Rightarrow> fault + (fs \<times> event list \<times> int)"
  iop_rmdir :: "env \<Rightarrow> fs \<Rightarrow> iref \<Rightarrow> dref \<Rightarrow> fault + (fs \<times> event list \<times> int)"
  iop_rename :: "env \<Rightarrow> fs \<Rightarrow> iref \<Rightarrow> dref \<Rightarrow> iref \<Rightarrow> dref \<Rightarrow> fault + (fs \<times> event list \<times> int)"

definition ceph_dir_iops :: inode_operations where
  "ceph_dir_iops =
     \<lparr>iop_mknod = ceph_mknod, iop_symlink = ceph_symlink, iop_mkdir = ceph_mkdir,
      iop_link = ceph_link, iop_unlink = ceph_unlink, iop_rmdir = ceph_unlink,
      iop_rename = ceph_rename\<rparr>"

subsection \<open>\<^verbatim>\<open>ceph_readdir\<close>\<close>

text \<open>
  The fragment functions of \<^verbatim>\<open>ceph_fs.h\<close> and \<^verbatim>\<open>ceph_choose_frag\<close> are not part
  of these sources; \<^verbatim>\<open>ceph_readdir\<close> takes them as parameters.
\<close>

record frag_ops =
  frag_value :: "u32 \<Rightarrow> u32"
  frag_mask :: "u32 \<Rightarrow> u32"
  frag_is_leftmost :: "u32 \<Rightarrow> bool"
  frag_next :: "u32 \<Rightarrow> u32"
  ceph_choose_frag :: "iref \<Rightarrow> u32 \<Rightarrow> u32"

text \<open>The open directory: \<^verbatim>\<open>struct file\<close> with its \<^verbatim>\<open>ceph_file_info\<close>.\<close>

record dir_file =
  f_pos :: loff_t
  f_dentry :: dref
  fi_frag :: u32
  last_readdir :: "request option"

text \<open>
  The callback \<^verbatim>\<open>filldir(dirent, name, namelen, offset, ino, d_type)\<close> works on the
  caller's buffer \<open>'b\<close> and returns a negative value when it takes no more entries.
\<close>

type_synonym 'b filldir_t = "'b \<Rightarrow> string \<Rightarrow> int \<Rightarrow> loff_t \<Rightarrow> u64 \<Rightarrow> u32 \<Rightarrow> 'b \<times> int"

text \<open>
  The first part of an iteration: when the cached reply is not the one of \<open>frag\<close>, ask
  the server. The result is the \<^verbatim>\<open>int\<close> returned early, or the fragment chosen and
  the updated state.
\<close>

definition readdir_fetch ::
  "frag_ops \<Rightarrow> env \<Rightarrow> fs \<Rightarrow> dir_file \<Rightarrow> iref \<Rightarrow> u32 \<Rightarrow> fs \<times> dir_file \<times> event list \<times> (int + u32)" where
  "readdir_fetch fo e s filp inode frag =
     (if fi_frag filp \<noteq> frag \<or> last_readdir filp = None then
        (let frag1 = ceph_choose_frag fo inode frag in
         case ceph_mdsc_create_request e CEPH_MDS_OP_READDIR (ceph_ino (inodes s inode))
                (Some []) 0 None (f_dentry filp) USE_AUTH_MDS of
           Inl err \<Rightarrow> (s, filp, [], Inl err)
         | Inr req \<Rightarrow>
             (let req1 = req\<lparr>r_direct_hash := frag_value fo frag1, r_direct_is_hash := True,
                            r_args := ReaddirArgs frag1\<rparr>;
                  (s1, evs, req2, err) = ceph_mdsc_do_request e s req1
              in if err < 0 then (s1, filp, evs, Inl err)
                 else (s1, filp\<lparr>last_readdir := Some req2\<rparr>, evs, Inr frag1)))
      else (s, filp, [], Inr frag))"

text \<open>
  The steps below work on \<^verbatim>\<open>off\<close>, \<^verbatim>\<open>filp->f_pos\<close> and the buffer. Their
  result carries \<open>True\<close> when \<^verbatim>\<open>filldir\<close> refused the entry and the function
  returns 0.
\<close>

type_synonym 'b rd_state = "u32 \<times> loff_t \<times> 'b"

definition readdir_dot :: "'b filldir_t \<Rightarrow> inode \<Rightarrow> 'b rd_state \<Rightarrow> bool \<times> 'b rd_state" where
  "readdir_dot filldir ino = (\<lambda>(off, pos, dirent).
     (case filldir dirent ''.'' 1 (make_fpos 0 0) (i_ino ino) (drop_bit 12 (i_mode ino)) of
        (dirent', r) \<Rightarrow>
          if r < 0 then (True, off, pos, dirent') else (False, off + 1, pos + 1, dirent')))"

definition readdir_dotdot ::
  "'b filldir_t \<Rightarrow> fs \<Rightarrow> inode \<Rightarrow> dref option \<Rightarrow> 'b rd_state \<Rightarrow> fault + (bool \<times> 'b rd_state)" where
  "readdir_dotdot filldir s ino parent = (\<lambda>(off, pos, dirent).
     (case parent of
        None \<Rightarrow> Inr (False, off + 1, pos + 1, dirent)
      | Some p \<Rightarrow>
          (case d_inode (dentries s p) of
             None \<Rightarrow> Inl NullDeref
           | Some pi \<Rightarrow>
               (case filldir dirent ''..'' 2 (make_fpos 0 1) (i_ino (inodes s pi))
                       (drop_bit 12 (i_mode ino)) of
                  (dirent', r) \<Rightarrow>
                    if r < 0 then Inr (True, off, pos, dirent')
                    else Inr (False, off + 1, pos + 1, dirent')))))"

text \<open>
  The \<^verbatim>\<open>switch (off)\<close> of the leftmost fragment, with its fall-through from
  \<^verbatim>\<open>case 0\<close> to \<^verbatim>\<open>case 1\<close>.
\<close>

definition readdir_dots ::
  "'b filldir_t \<Rightarrow> fs \<Rightarrow> inode \<Rightarrow> dref option \<Rightarrow> 'b rd_state \<Rightarrow> fault + (bool \<times> 'b rd_state)" where
  "readdir_dots filldir s ino parent = (\<lambda>(off, pos, dirent).
     if off = 0 then
       (case readdir_dot filldir ino (off, pos, dirent) of
          (True, st) \<Rightarrow> Inr (True, st)
        | (False, st) \<Rightarrow> readdir_dotdot filldir s ino parent st)
     else if off = 1 then readdir_dotdot filldir s ino parent (off, pos, dirent)
     else Inr (False, off, pos, dirent))"

text \<open>
  The loop \<^verbatim>\<open>while (off+skew < rinfo->dir_nr)\<close>. The comparison is one of
  \<^verbatim>\<open>unsigned\<close> values, and \<^verbatim>\<open>dir_nr\<close> is the number of entries of the reply.
\<close>

function readdir_entries ::
  "'b filldir_t \<Rightarrow> u32 \<Rightarrow> u32 \<Rightarrow> dir_item list \<Rightarrow> 'b rd_state \<Rightarrow> bool \<times> 'b rd_state" where
  "readdir_entries filldir frag skew items (off, pos, dirent) =
     (if off + skew < of_nat (length items) then
        (case filldir dirent (dir_dname (items ! unat (off + skew)))
                (int (length (dir_dname (items ! unat (off + skew))))) (make_fpos frag off)
                (dir_ino (items ! unat (off + skew)))
                (drop_bit 12 (dir_mode (items ! unat (off + skew)))) of
           (dirent', r) \<Rightarrow>
             if r < 0 then (True, off, pos, dirent')
             else readdir_entries filldir frag skew items (off + 1, pos + 1, dirent'))
      else (False, off, pos, dirent))"
  by pat_completeness auto
termination
proof (relation "measure (\<lambda>(filldir, frag, skew, items, off, pos, dirent).
    unat (of_nat (length items) :: u32) - unat (off + skew))")
  show "wf (measure (\<lambda>(filldir :: 'b filldir_t, frag :: u32, skew :: u32, items :: dir_item list,
      off :: u32, pos :: loff_t, dirent :: 'b).
    unat (of_nat (length items) :: u32) - unat (off + skew)))"
    by simp
next
  fix filldir :: "'b filldir_t" and frag skew :: u32 and items :: "dir_item list"
    and off :: u32 and pos :: loff_t and dirent :: 'b and x :: "'b \<times> int"
    and dirent' :: 'b and r :: int
  assume lt: "off + skew < of_nat (length items)"
  have "1 + (off + skew) \<noteq> 0"
  proof
    assume "1 + (off + skew) = 0"
    then have "off + skew = - 1" by (simp add: add_eq_0_iff)
    with lt have "(- 1 :: u32) < of_nat (length items)" by simp
    then show False by (simp add: word_order.not_eq_extremum)
  qed
  then have "unat (1 + (off + skew)) = Suc (unat (off + skew))"
    by (rule unatSuc)
  moreover have "unat (off + skew) < unat (of_nat (length items) :: u32)"
    using lt by (simp add: word_less_nat_alt)
  ultimately show "((filldir, frag, skew, items, off + 1, pos + 1, dirent'),
      (filldir, frag, skew, items, off, pos, dirent))
    \<in> measure (\<lambda>(filldir, frag, skew, items, off, pos, dirent).
        unat (of_nat (length items) :: u32) - unat (off + skew))"
    by (simp add: add.commute add.left_commute)
qed

declare readdir_entries.simps [simp del]

text \<open>
  The loop from \<^verbatim>\<open>nextfrag\<close> to \<^verbatim>\<open>goto nextfrag\<close>. \<^verbatim>\<open>skew\<close> is an
  \<^verbatim>\<open>unsigned\<close>, so \<^verbatim>\<open>-2\<close> is \<open>2^32 - 2\<close> and \<^verbatim>\<open>off+skew\<close> wraps.
\<close>

fun readdir_frags ::
  "nat \<Rightarrow> frag_ops \<Rightarrow> env \<Rightarrow> 'b filldir_t \<Rightarrow> iref \<Rightarrow> fs \<Rightarrow> dir_file \<Rightarrow> 'b \<Rightarrow> event list \<Rightarrow>
   u32 \<Rightarrow> u32 \<Rightarrow> fault + (fs \<times> dir_file \<times> 'b \<times> event list \<times> int)" where
  "readdir_frags 0 fo e filldir inode s filp dirent evs frag off = Inl OutOfFuel"
| "readdir_frags (Suc n) fo e filldir inode s filp dirent evs frag off =
     (case readdir_fetch fo e s filp inode frag of
        (s1, filp1, evs1, Inl err) \<Rightarrow> Inr (s1, filp1, dirent, evs @ evs1, err)
      | (s1, filp1, evs1, Inr frag1) \<Rightarrow>
          (case (if frag_is_leftmost fo frag1 then
                   map_sum id (\<lambda>r. (r, - 2))
                     (readdir_dots filldir s1 (inodes s1 inode)
                        (d_parent (dentries s1 (f_dentry filp1))) (off, f_pos filp1, dirent))
                 else Inr ((False, off, f_pos filp1, dirent), 0)) of
             Inl f \<Rightarrow> Inl f
           | Inr ((True, off1, pos1, dirent1), skew) \<Rightarrow>
               Inr (s1, filp1\<lparr>f_pos := pos1\<rparr>, dirent1, evs @ evs1, 0)
           | Inr ((False, off1, pos1, dirent1), skew) \<Rightarrow>
               (case last_readdir filp1 of
                  None \<Rightarrow> Inl NullDeref
                | Some rinfo \<Rightarrow>
                    (case readdir_entries filldir frag1 skew (dir_items rinfo)
                            (off1, pos1, dirent1) of
                       (True, off2, pos2, dirent2) \<Rightarrow>
                         Inr (s1, filp1\<lparr>f_pos := pos2\<rparr>, dirent2, evs @ evs1, 0)
                     | (False, off2, pos2, dirent2) \<Rightarrow>
                         if frag_value fo frag1 \<noteq> frag_mask fo frag1 then
                           readdir_frags n fo e filldir inode s1
                             (filp1\<lparr>f_pos := make_fpos (frag_next fo frag1) 0\<rparr>) dirent2
                             (evs @ evs1) (frag_next fo frag1) 0
                         else Inr (s1, filp1\<lparr>f_pos := pos2\<rparr>, dirent2, evs @ evs1, 0)))))"

definition ceph_readdir ::
  "nat \<Rightarrow> frag_ops \<Rightarrow> env \<Rightarrow> 'b filldir_t \<Rightarrow> fs \<Rightarrow> dir_file \<Rightarrow> 'b \<Rightarrow>
   fault + (fs \<times> dir_file \<times> 'b \<times> event list \<times> int)" where
  "ceph_readdir n fo e filldir s filp dirent =
     (case d_inode (dentries s (f_dentry filp)) of
        None \<Rightarrow> Inl NullDeref
      | Some inode \<Rightarrow>
          readdir_frags n fo e filldir inode s filp dirent []
            (fpos_frag (f_pos filp)) (fpos_off (f_pos filp)))"

text \<open>A \<^verbatim>\<open>filldir\<close> that appends every entry to a list and never refuses.\<close>

type_synonym dirent_rec = "string \<times> loff_t \<times> u64 \<times> u32"

definition collect :: "dirent_rec list filldir_t" where
  "collect dirent name namelen pos ino dtype = (dirent @ [(name, pos, ino, dtype)], 0)"

text \<open>
  A \<^verbatim>\<open>filldir\<close> whose buffer holds \<open>k\<close> entries: it appends an entry while there is
  room and refuses the next one.
\<close>

definition bounded :: "nat \<Rightarrow> dirent_rec list filldir_t" where
  "bounded k dirent name namelen pos ino dtype =
     (if length dirent < k then (dirent @ [(name, pos, ino, dtype)], 0) else (dirent, - EINVAL))"

section \<open>Notions used in the properties\<close>

subsection \<open>Paths and parent chains\<close>

text \<open>The components of a path, root first, with \<open>/\<close> between them.\<close>

fun join_path :: "string list \<Rightarrow> string" where
  "join_path [] = []"
| "join_path [n] = n"
| "join_path (n # m # ns) = n @ CHR ''/'' # join_path (m # ns)"

text \<open>
  \<open>on_chain s d xs t\<close>: following \<^verbatim>\<open>d_parent\<close> from \<open>d\<close> visits the dentries
  \<open>xs\<close> in this order and then reaches \<open>t\<close>.
\<close>

fun on_chain :: "fs \<Rightarrow> dref \<Rightarrow> dref list \<Rightarrow> dref \<Rightarrow> bool" where
  "on_chain s d [] t = (d = t)"
| "on_chain s d (x # xs) t =
     (x = d \<and> (case d_parent (dentries s d) of None \<Rightarrow> False | Some p \<Rightarrow> on_chain s p xs t))"

text \<open>
  The first loop goes on at a dentry that is not the root and either has no inode or is
  revalidated; it ends at the root and at a dentry with an inode that is not revalidated
  (and is dropped by \<^verbatim>\<open>ceph_dentry_revalidate\<close>).
\<close>

definition walk_continues :: "fs \<Rightarrow> dref \<Rightarrow> bool" where
  "walk_continues s x =
     (\<not> IS_ROOT s x \<and>
      (d_inode (dentries s x) = None \<or> ceph_dentry_revalidate s x = Inr (s, True)))"

definition walk_stops :: "fs \<Rightarrow> dref \<Rightarrow> bool" where
  "walk_stops s x =
     (IS_ROOT s x \<or>
      (d_inode (dentries s x) \<noteq> None \<and> ceph_dentry_revalidate s x = Inr (d_drop s x, False)))"

definition after_walk :: "fs \<Rightarrow> dref \<Rightarrow> fs" where
  "after_walk s t = (if IS_ROOT s t then s else d_drop s t)"

definition names_of :: "fs \<Rightarrow> dref list \<Rightarrow> string list" where
  "names_of s xs = map (\<lambda>x. d_name (dentries s x)) xs"

text \<open>
  The walk in the words of the specification, to compare with: every dentry is asked
  whether it is trustworthy, and the walk stops at the first one that is not, or at the
  root; the base is the identity of the dentry where it stops.
\<close>

definition trustworthy :: "fs \<Rightarrow> dref \<Rightarrow> bool" where
  "trustworthy s x = (case ceph_dentry_revalidate s x of Inr (s', ok) \<Rightarrow> ok | Inl f \<Rightarrow> False)"

fun spec_build_dentry_path ::
  "nat \<Rightarrow> fs \<Rightarrow> dref \<Rightarrow> string list \<Rightarrow> (string \<times> int \<times> u64 option) option" where
  "spec_build_dentry_path 0 s x names = None"
| "spec_build_dentry_path (Suc n) s x names =
     (if \<not> IS_ROOT s x \<and> trustworthy s x
      then (case d_parent (dentries s x) of
              None \<Rightarrow> None
            | Some p \<Rightarrow> spec_build_dentry_path n s p (d_name (dentries s x) # names))
      else Some (join_path names, int (length (join_path names)),
                 map_option (\<lambda>i. ceph_ino (inodes s i)) (d_inode (dentries s x))))"

text \<open>
  The same walk when the ancestors are the dentries above the starting one: the name of
  the starting dentry is taken unasked.
\<close>

definition spec_build_dentry_path_above ::
  "nat \<Rightarrow> fs \<Rightarrow> dref \<Rightarrow> (string \<times> int \<times> u64 option) option" where
  "spec_build_dentry_path_above n s d =
     (if IS_ROOT s d then spec_build_dentry_path n s d []
      else (case d_parent (dentries s d) of
              None \<Rightarrow> None
            | Some p \<Rightarrow> spec_build_dentry_path n s p [d_name (dentries s d)]))"

subsection \<open>Results and calls\<close>

fun IS_ERR :: "dentry_ptr \<Rightarrow> bool" where
  "IS_ERR (D_ERR err) = True"
| "IS_ERR D_NULL = False"
| "IS_ERR (D_PTR d) = False"

text \<open>The opcodes of the requests dispatched, in order.\<close>

fun dispatched :: "event list \<Rightarrow> opcode list" where
  "dispatched [] = []"
| "dispatched (LeaseRelease i dn m # evs) = dispatched evs"
| "dispatched (Dispatch req # evs) = r_op req # dispatched evs"

fun mutating :: "opcode \<Rightarrow> bool" where
  "mutating CEPH_MDS_OP_LSTAT = False"
| "mutating CEPH_MDS_OP_READDIR = False"
| "mutating op = True"

text \<open>
  \<open>released_before_dispatch dir rel evs\<close>: every mutating request in \<open>evs\<close> is
  dispatched after a release of the \<^verbatim>\<open>ICONTENT\<close> lease of the inode \<open>dir\<close>
  (\<open>rel\<close> tells whether one has been seen already).
\<close>

fun released_before_dispatch :: "iref \<Rightarrow> bool \<Rightarrow> event list \<Rightarrow> bool" where
  "released_before_dispatch dir rel [] = True"
| "released_before_dispatch dir rel (LeaseRelease i dn m # evs) =
     released_before_dispatch dir (rel \<or> (i = dir \<and> CEPH_LOCK_ICONTENT \<in> m)) evs"
| "released_before_dispatch dir rel (Dispatch req # evs) =
     ((if mutating (r_op req) then rel else True) \<and> released_before_dispatch dir rel evs)"

subsection \<open>Directory entries handed to \<^verbatim>\<open>filldir\<close>\<close>

text \<open>The entries \<open>.\<close> and \<open>..\<close> that are due at offset \<open>off\<close>.\<close>

definition dots_of :: "inode \<Rightarrow> inode \<Rightarrow> u32 \<Rightarrow> dirent_rec list" where
  "dots_of ino pino off =
     (if off = 0 then [(''.'', make_fpos 0 0, i_ino ino, drop_bit 12 (i_mode ino))] else []) @
     (if off = 0 \<or> off = 1 then [(''..'', make_fpos 0 1, i_ino pino, drop_bit 12 (i_mode ino))]
      else [])"

text \<open>The entries of a reply, the first one at offset \<open>off\<close> of fragment \<open>frag\<close>.\<close>

fun entries_of :: "u32 \<Rightarrow> u32 \<Rightarrow> dir_item list \<Rightarrow> dirent_rec list" where
  "entries_of frag off [] = []"
| "entries_of frag off (it # items) =
     (dir_dname it, make_fpos frag off, dir_ino it, drop_bit 12 (dir_mode it)) #
     entries_of frag (off + 1) items"

section \<open>Example states\<close>

text \<open>
  A small cache: the root, the directories \<open>usr\<close>, \<open>usr/lib\<close> and \<open>tmp\<close>, the file
  \<open>usr/f\<close>, and the names \<open>usr/lib/new\<close> and \<open>tmp/g\<close> without an inode. Each
  \<^verbatim>\<open>d_time\<close> is the \<^verbatim>\<open>i_version\<close> of the parent. The answers about leases are
  parameters.
\<close>

definition example_fs :: "(iref \<Rightarrow> lock \<Rightarrow> bool) \<Rightarrow> (dref \<Rightarrow> bool) \<Rightarrow> fs" where
  "example_fs il dl =
     \<lparr>dentries = (\<lambda>x. \<lparr>d_name = ''/'', d_parent = Some 0, d_inode = Some 0, d_time = 0, d_hashed = True\<rparr>)
        (7 := \<lparr>d_name = ''usr'', d_parent = Some 0, d_inode = Some 5, d_time = 7, d_hashed = True\<rparr>,
         2 := \<lparr>d_name = ''lib'', d_parent = Some 7, d_inode = Some 2, d_time = 3, d_hashed = True\<rparr>,
         3 := \<lparr>d_name = ''new'', d_parent = Some 2, d_inode = None, d_time = 0, d_hashed = True\<rparr>,
         4 := \<lparr>d_name = ''tmp'', d_parent = Some 0, d_inode = Some 3, d_time = 7, d_hashed = True\<rparr>,
         5 := \<lparr>d_name = ''f'', d_parent = Some 7, d_inode = Some 4, d_time = 3, d_hashed = True\<rparr>,
         6 := \<lparr>d_name = ''g'', d_parent = Some 4, d_inode = None, d_time = 4, d_hashed = True\<rparr>),
      inodes = (\<lambda>i. \<lparr>i_ino = 1, ceph_ino = 1, i_mode = 0x41ED, i_nlink = 3, i_version = 7\<rparr>)
        (5 := \<lparr>i_ino = 16, ceph_ino = 16, i_mode = 0x41ED, i_nlink = 3, i_version = 3\<rparr>,
         2 := \<lparr>i_ino = 17, ceph_ino = 17, i_mode = 0x41ED, i_nlink = 2, i_version = 9\<rparr>,
         3 := \<lparr>i_ino = 18, ceph_ino = 18, i_mode = 0x41ED, i_nlink = 2, i_version = 4\<rparr>,
         4 := \<lparr>i_ino = 19, ceph_ino = 19, i_mode = 0x81A4, i_nlink = 1, i_version = 1\<rparr>),
      d_next = 8,
      ceph_inode_lease_valid = il,
      ceph_dentry_lease_valid = dl\<rparr>"

definition never :: "'a \<Rightarrow> bool" where
  "never x = False"

definition always :: "'a \<Rightarrow> bool" where
  "always x = True"

text \<open>The example cache with every inode lease valid, and with no lease valid.\<close>

definition leased_fs :: fs where
  "leased_fs = example_fs (\<lambda>i. always) never"

definition unleased_fs :: fs where
  "unleased_fs = example_fs (\<lambda>i. never) never"

text \<open>Attempts of path construction: undisturbed, and with a rename or a detached
  dentry between the two loops.\<close>

definition quiet :: attempt where
  "quiet = \<lparr>kmalloc_ok = True, racing = (\<lambda>s. s)\<rparr>"

definition rename_to :: "dref \<Rightarrow> string \<Rightarrow> fs \<Rightarrow> fs" where
  "rename_to x name s = s\<lparr>dentries := (dentries s)(x := (dentries s x)\<lparr>d_name := name\<rparr>)\<rparr>"

definition renaming :: attempt where
  "renaming = \<lparr>kmalloc_ok = True, racing = rename_to 2 ''libraries''\<rparr>"



text \<open>A server that answers every request with success and no trace, and leaves the
  cache and \<^verbatim>\<open>r_last_dentry\<close> as they are; one that answers a readdir with the
  listing of the fragment asked for.\<close>

definition no_trace_mds :: "fs \<Rightarrow> request \<Rightarrow> reply" where
  "no_trace_mds s req =
     \<lparr>reply_err = 0, reply_trace_numd = 0, reply_dir_items = [],
      reply_last_dentry = r_last_dentry req, reply_fs = s\<rparr>"

definition readdir_mds :: "(u32 \<Rightarrow> dir_item list) \<Rightarrow> fs \<Rightarrow> request \<Rightarrow> reply" where
  "readdir_mds listing s req =
     \<lparr>reply_err = 0, reply_trace_numd = 0,
      reply_dir_items = (case r_args req of ReaddirArgs frag \<Rightarrow> listing frag | _ \<Rightarrow> []),
      reply_last_dentry = r_last_dentry req, reply_fs = s\<rparr>"

definition init_dentry_example :: "dentry \<Rightarrow> dentry" where
  "init_dentry_example d = d\<lparr>d_time := 0\<rparr>"

definition example_env :: "(fs \<Rightarrow> request \<Rightarrow> reply) \<Rightarrow> env" where
  "example_env m =
     \<lparr>walk_fuel = 5, attempts = [quiet], create_request_error = Map.empty, mds = m,
      ceph_init_dentry = init_dentry_example, CEPH_STAT_MASK_INODE_ALL = 255\<rparr>"

text \<open>The requests of the examples.\<close>

definition request_of :: "opcode \<Rightarrow> u64 \<Rightarrow> string \<Rightarrow> u64 \<Rightarrow> string option \<Rightarrow> dref \<Rightarrow> mds_mode \<Rightarrow> request" where
  "request_of op ino1 path1 ino2 path2 ref mode =
     \<lparr>r_op = op, r_ino1 = ino1, r_path1 = Some path1, r_ino2 = ino2, r_path2 = path2,
      r_ref_dentry = ref, r_mode = mode, r_args = NoArgs, r_last_dentry = None,
      r_old_dentry = None, r_direct_hash = 0, r_direct_is_hash = False,
      trace_numd = 0, dir_items = []\<rparr>"

definition lookup_new_req :: request where
  "lookup_new_req = (request_of CEPH_MDS_OP_LSTAT 1 ''usr/lib/new'' 0 None 3 USE_ANY_MDS)
                      \<lparr>r_args := StatArgs 255, r_last_dentry := Some 3\<rparr>"

definition lookup_req :: request where
  "lookup_req = (request_of CEPH_MDS_OP_LSTAT 1 ''usr/lib'' 0 None 2 USE_ANY_MDS)
                  \<lparr>r_args := StatArgs 255, r_last_dentry := Some 2\<rparr>"

definition link_req :: request where
  "link_req = (request_of CEPH_MDS_OP_LINK 1 ''tmp/g'' 1 (Some ''usr/f'') 6 USE_AUTH_MDS)
                \<lparr>r_last_dentry := Some 6\<rparr>"

definition rename_req :: request where
  "rename_req = (request_of CEPH_MDS_OP_RENAME 1 ''usr/f'' 1 (Some ''tmp/g'') 6 USE_AUTH_MDS)
                  \<lparr>r_last_dentry := Some 6, r_old_dentry := Some 5\<rparr>"

definition mknod_req :: request where
  "mknod_req = (request_of CEPH_MDS_OP_MKNOD 1 ''tmp/g'' 0 None 6 USE_AUTH_MDS)
                 \<lparr>r_args := MknodArgs 0x81A4 0\<rparr>"

definition lstat_req :: request where
  "lstat_req = (request_of CEPH_MDS_OP_LSTAT 1 ''tmp/g'' 0 None 6 USE_ANY_MDS)
                 \<lparr>r_args := StatArgs 255, r_last_dentry := Some 6\<rparr>"

definition unlink_req :: "opcode \<Rightarrow> string \<Rightarrow> dref \<Rightarrow> request" where
  "unlink_req op path d = request_of op 1 path 0 None d USE_AUTH_MDS"

text \<open>
  Fragment functions for the examples: the fragment holds the number of bits above bit 24
  and the value in the low 24 bits. The directory \<open>usr\<close> is split in two fragments with
  two entries and one.
\<close>

definition frag_bits :: "u32 \<Rightarrow> nat" where
  "frag_bits f = unat (drop_bit 24 f)"

definition example_frag_ops :: frag_ops where
  "example_frag_ops =
     \<lparr>frag_value = (\<lambda>f. f AND 0xffffff),
      frag_mask = (\<lambda>f. push_bit (24 - frag_bits f) 0xffffff AND 0xffffff),
      frag_is_leftmost = (\<lambda>f. f AND 0xffffff = 0),
      frag_next = (\<lambda>f. push_bit 24 (drop_bit 24 f) OR
                        (((f AND 0xffffff) + drop_bit (frag_bits f) 0x1000000) AND 0xffffff)),
      ceph_choose_frag = (\<lambda>i f. if f = 0 then 0x1000000 else f)\<rparr>"

definition entry_a :: dir_item where
  "entry_a = \<lparr>dir_dname = ''a'', dir_ino = 32, dir_mode = 0x81A4\<rparr>"

definition entry_b :: dir_item where
  "entry_b = \<lparr>dir_dname = ''b'', dir_ino = 33, dir_mode = 0x41ED\<rparr>"

definition entry_c :: dir_item where
  "entry_c = \<lparr>dir_dname = ''c'', dir_ino = 34, dir_mode = 0x81A4\<rparr>"

definition example_listing :: "u32 \<Rightarrow> dir_item list" where
  "example_listing f =
     (if f = 0x1000000 then [entry_a, entry_b]
      else if f = 0x1800000 then [entry_c]
      else [])"

definition example_dir :: dir_file where
  "example_dir = \<lparr>f_pos = 0, f_dentry = 7, fi_frag = 0, last_readdir = None\<rparr>"

definition cached_req :: request where
  "cached_req = (request_of CEPH_MDS_OP_READDIR 16 [] 0 None 7 USE_AUTH_MDS)
     \<lparr>r_args := ReaddirArgs 0x1800000, r_direct_hash := 0x800000, r_direct_is_hash := True,
      dir_items := [entry_c]\<rparr>"

definition cached_dir :: dir_file where
  "cached_dir = \<lparr>f_pos = make_fpos 0x1800000 0, f_dentry = 7, fi_frag = 0x1800000,
                  last_readdir = Some cached_req\<rparr>"

text \<open>
  The request \<^verbatim>\<open>ceph_readdir\<close> sends for a fragment of \<open>usr\<close>, and the open
  directory after a first call has cached the reply for the first fragment and stopped
  at position \<open>pos\<close>.
\<close>

definition readdir_req :: "u32 \<Rightarrow> request" where
  "readdir_req frag = (request_of CEPH_MDS_OP_READDIR 16 [] 0 None 7 USE_AUTH_MDS)
     \<lparr>r_args := ReaddirArgs frag, r_direct_hash := frag AND 0xffffff, r_direct_is_hash := True\<rparr>"

definition resumed_dir :: "loff_t \<Rightarrow> dir_file" where
  "resumed_dir pos =
     \<lparr>f_pos = pos, f_dentry = 7, fi_frag = 0,
      last_readdir = Some ((readdir_req 0x1000000)\<lparr>dir_items := [entry_a, entry_b]\<rparr>)\<rparr>"

section \<open>Properties\<close>

lemmas example_defs =
  example_env_def no_trace_mds_def init_dentry_example_def leased_fs_def
  example_fs_def quiet_def request_of_def always_def never_def

subsection \<open>File positions\<close>

lemma mask_32_numeral: "(0xffffffff :: loff_t) = mask 32"
  by (simp add: mask_eq_exp_minus_1)

lemma fpos_off_make_fpos: "fpos_off (make_fpos frag off) = off"
  unfolding fpos_off_def make_fpos_def mask_32_numeral
  by (rule bit_word_eqI) (auto simp: bit_simps)

lemma fpos_frag_make_fpos: "fpos_frag (make_fpos frag off) = frag"
  unfolding fpos_frag_def make_fpos_def
  by (rule bit_word_eqI) (auto simp: bit_simps dest: bit_imp_le_length)

text \<open>
  C2. Decoding an encoded position gives back the fragment and the offset, for every
  32-bit fragment and every 32-bit offset.
\<close>

theorem fpos_roundtrip:
  "fpos_frag (make_fpos frag off) = frag \<and> fpos_off (make_fpos frag off) = off"
  by (simp add: fpos_frag_make_fpos fpos_off_make_fpos)

subsection \<open>Revalidation\<close>

text \<open>
  C1, as amended. For a dentry whose parent and parent inode are there,
  \<^verbatim>\<open>ceph_dentry_revalidate\<close> returns 1 exactly when the recorded \<^verbatim>\<open>d_time\<close> equals
  the version of the parent directory and the \<^verbatim>\<open>ICONTENT\<close> lease of that directory is
  valid, or the lease of the dentry itself is valid. Otherwise it returns 0 and drops the
  dentry.
\<close>

theorem revalidate_iff:
  assumes "d_parent (dentries s dentry) = Some p" and "d_inode (dentries s p) = Some dir"
  shows "ceph_dentry_revalidate s dentry =
           (if (i_version (inodes s dir) = d_time (dentries s dentry) \<and>
                ceph_inode_lease_valid s dir CEPH_LOCK_ICONTENT) \<or>
               ceph_dentry_lease_valid s dentry
            then Inr (s, True) else Inr (d_drop s dentry, False))"
  using assms by (simp add: ceph_dentry_revalidate_def)

theorem revalidate_iff_witness:
  "ceph_dentry_revalidate leased_fs 7 = Inr (leased_fs, True)"
  using revalidate_iff [of leased_fs 7 0 0]
  by (simp add: example_defs)

text \<open>
  C1 as stated fails: in \<open>unleased_fs\<close> the dentry \<open>usr\<close> records the version of
  the root, and no lease is valid; the version match alone does not make it valid.
\<close>

theorem revalidate_version_counterexample:
  "i_version (inodes unleased_fs 0) = d_time (dentries unleased_fs 7) \<and>
   ceph_dentry_revalidate unleased_fs 7 = Inr (d_drop unleased_fs 7, False)"
  by (simp add: unleased_fs_def example_defs ceph_dentry_revalidate_def)

subsection \<open>Path construction\<close>

lemma join_path_snoc:
  "join_path (ys @ [n]) = (if ys = [] then n else join_path ys @ CHR ''/'' # n)"
  by (induction ys rule: join_path.induct) auto

lemma length_join_path:
  "ns \<noteq> [] \<Longrightarrow> int (length (join_path ns)) = (\<Sum>n\<leftarrow>ns. 1 + int (length n)) - 1"
  by (induction ns rule: join_path.induct) auto

lemma d_drop_fields [simp]:
  "d_name (dentries (d_drop s t) x) = d_name (dentries s x)"
  "d_parent (dentries (d_drop s t) x) = d_parent (dentries s x)"
  "d_inode (dentries (d_drop s t) x) = d_inode (dentries s x)"
  "inodes (d_drop s t) = inodes s"
  by (simp_all add: d_drop_def)

lemma IS_ROOT_d_drop [simp]: "IS_ROOT (d_drop s t) x = IS_ROOT s x"
  by (simp add: IS_ROOT_def)

lemma on_chain_d_drop [simp]: "on_chain (d_drop s u) d xs t = on_chain s d xs t"
  by (induction xs arbitrary: d) (auto split: option.splits)

lemma first_pass_chain:
  "on_chain s d xs t \<Longrightarrow> \<forall>x\<in>set xs. walk_continues s x \<Longrightarrow> walk_stops s t \<Longrightarrow>
   length xs < n \<Longrightarrow>
   first_pass n s d len =
     Inr (after_walk s t, Some (len + (\<Sum>m\<leftarrow>names_of s xs. 1 + int (length m))))"
proof (induction xs arbitrary: d len n)
  case Nil
  then obtain k where n: "n = Suc k" by (cases n) auto
  from Nil have "d = t" by simp
  with Nil n show ?case
    by (auto simp: walk_stops_def after_walk_def names_of_def)
next
  case (Cons x xs)
  then obtain k where n: "n = Suc k" by (cases n) auto
  from Cons.prems obtain p where x: "x = d" and p: "d_parent (dentries s d) = Some p"
    and ch: "on_chain s p xs t"
    by (auto split: option.splits)
  from Cons.prems x have c: "walk_continues s d" by simp
  have lt: "length xs < k" using Cons.prems n by simp
  have ih: "first_pass k s p l = Inr (after_walk s t, Some (l + (\<Sum>m\<leftarrow>names_of s xs. 1 + int (length m))))" for l
    using Cons.IH [OF ch _ Cons.prems(3) lt] Cons.prems(2) by simp
  from c show ?case
    unfolding n using p x
    by (auto simp: walk_continues_def ih names_of_def)
qed


lemma second_pass_chain:
  "on_chain s d xs t \<Longrightarrow> \<forall>x\<in>set xs. \<not> IS_ROOT s x \<and> d_name (dentries s x) \<noteq> [] \<Longrightarrow>
   length xs < n \<Longrightarrow> pos = int (length (join_path (rev (names_of s xs)))) \<Longrightarrow>
   second_pass n s d pos path = Inr (Some (t, 0, join_path (rev (names_of s xs)) @ path))"
proof (induction xs arbitrary: d pos path n)
  case Nil
  then obtain k where n: "n = Suc k" by (cases n) auto
  from Nil n show ?case by (simp add: names_of_def)
next
  case (Cons x xs)
  then obtain k where n: "n = Suc k" by (cases n) auto
  from Cons.prems obtain p where x: "x = d" and p: "d_parent (dentries s d) = Some p"
    and ch: "on_chain s p xs t"
    by (auto split: option.splits)
  have lt: "length xs < k" using Cons.prems n by simp
  have nr: "\<not> IS_ROOT s d" and ne: "d_name (dentries s d) \<noteq> []"
    using Cons.prems(2) x by auto
  let ?nm = "d_name (dentries s d)"
  let ?rest = "join_path (rev (names_of s xs))"
  have full: "join_path (rev (names_of s (x # xs))) = (if xs = [] then ?nm else ?rest @ CHR ''/'' # ?nm)"
    using x by (simp add: names_of_def join_path_snoc)
  show ?case
  proof (cases "xs = []")
    case True
    with ch have pt: "p = t" by simp
    from lt obtain j where k: "k = Suc j" by (cases k) auto
    show ?thesis
      using True pt p nr ne Cons.prems(4) full
      by (simp add: n k names_of_def Let_def)
  next
    case False
    have ih: "second_pass k s p (int (length ?rest)) q = Inr (Some (t, 0, ?rest @ q))" for q
      using Cons.IH [OF ch _ lt refl] Cons.prems(2) by simp
    show ?thesis
      using False p nr ne Cons.prems(4) full ih
      by (simp add: n Let_def)
  qed
qed

text \<open>
  When the second loop ends with \<open>pos = 0\<close>, what it has written is as long as the
  \<open>pos\<close> it started from.
\<close>

lemma second_pass_length:
  "second_pass n s d pos path = Inr (Some (t, 0, path')) \<Longrightarrow>
   int (length path') = int (length path) + pos"
proof (induction n arbitrary: d pos path)
  case 0
  then show ?case by simp
next
  case (Suc n)
  show ?case
  proof (cases "\<not> IS_ROOT s d \<and> pos \<noteq> 0")
    case False
    with Suc.prems show ?thesis by auto
  next
    case True
    let ?pos1 = "pos - int (length (d_name (dentries s d)))"
    show ?thesis
    proof (cases "?pos1 < 0")
      case neg: True
      with True Suc.prems show ?thesis by (auto simp: Let_def)
    next
      case nonneg: False
      from True nonneg Suc.prems obtain p where p: "d_parent (dentries s d) = Some p"
        by (auto simp: Let_def split: option.splits)
      from True nonneg p Suc.prems Suc.IH show ?thesis
        by (auto simp: Let_def split: if_splits)
    qed
  qed
qed

lemma second_pass_returns_length:
  "second_pass n s d len [] = Inr (Some (t, 0, p)) \<Longrightarrow> len = int (length p)"
  using second_pass_length [of n s d len "[]" t p] by simp

lemma build_retry_length:
  "build_retry n as s d = Inr (s', Path p plen base) \<Longrightarrow> plen = int (length p)"
proof (induction as arbitrary: s)
  case Nil
  then show ?case by simp
next
  case (Cons a as)
  from Cons.prems obtain s1 len0 where fp: "first_pass n s d 0 = Inr (s1, Some len0)"
    by (auto split: sum.splits option.splits prod.splits)
  let ?len = "if len0 \<noteq> 0 then len0 - 1 else len0"
  from Cons.prems fp have km: "kmalloc_ok a"
    by (auto simp: Let_def split: if_splits)
  from Cons.prems fp km obtain temp pos path where
    sp: "second_pass n (racing a s1) d ?len [] = Inr (Some (temp, pos, path))"
    by (auto simp: Let_def split: sum.splits option.splits prod.splits if_splits)
  show ?case
  proof (cases "pos = 0")
    case True
    with Cons.prems fp km sp have "p = path" "plen = ?len"
      by (auto simp: Let_def split: option.splits if_splits)
    with sp True second_pass_returns_length show ?thesis by blast
  next
    case False
    with Cons.prems fp km sp have "build_retry n as (racing a s1) d = Inr (s', Path p plen base)"
      by (auto simp: Let_def split: if_splits)
    then show ?thesis by (rule Cons.IH)
  qed
qed

lemma sum_list_rev_names:
  "(\<Sum>m\<leftarrow>rev ns. 1 + int (length m)) = (\<Sum>m\<leftarrow>ns. 1 + int (length m))"
  by (simp add: rev_map [symmetric])

lemma sum_names_nonneg: "0 \<le> (\<Sum>m\<leftarrow>ns. 1 + int (length m))"
  by (induction ns) auto

lemma sum_names_pos: "ns \<noteq> [] \<Longrightarrow> 0 < (\<Sum>m\<leftarrow>ns. 1 + int (length m))"
  using sum_names_nonneg [of "tl ns"] by (cases ns) auto

text \<open>
  The result of the function along a parent chain without interference; the examples
  further down get their paths from it.
\<close>

lemma build_retry_chain:
  assumes ch: "on_chain s d xs t"
    and cont: "\<forall>x\<in>set xs. walk_continues s x \<and> d_name (dentries s x) \<noteq> []"
    and stop: "walk_stops s t"
    and ino: "d_inode (dentries s t) = Some i"
    and fuel: "length xs < n"
    and km: "kmalloc_ok a" and quietly: "racing a = (\<lambda>s. s)"
  shows "ceph_build_dentry_path n (a # as) s (Some d) =
           Inr (after_walk s t,
                Path (join_path (rev (names_of s xs)))
                     (int (length (join_path (rev (names_of s xs)))))
                     (ceph_ino (inodes s i)))"
proof -
  let ?s1 = "after_walk s t"
  let ?sum = "\<Sum>m\<leftarrow>names_of s xs. 1 + int (length m)"
  let ?p = "join_path (rev (names_of s xs))"
  have fp: "first_pass n s d 0 = Inr (?s1, Some ?sum)"
    using first_pass_chain [OF ch _ stop fuel, of 0] cont by simp
  have len: "(if ?sum \<noteq> 0 then ?sum - 1 else ?sum) = int (length ?p)"
  proof (cases "xs = []")
    case True
    then show ?thesis by (simp add: names_of_def)
  next
    case False
    then have ne: "names_of s xs \<noteq> []" by (simp add: names_of_def)
    then have "0 < ?sum" by (rule sum_names_pos)
    moreover have "int (length ?p) = ?sum - 1"
      using length_join_path [of "rev (names_of s xs)"] ne
      by (simp add: sum_list_rev_names)
    ultimately show ?thesis by simp
  qed
  have ch1: "on_chain ?s1 d xs t" using ch by (simp add: after_walk_def)
  have nm: "names_of ?s1 xs = names_of s xs" by (simp add: names_of_def after_walk_def)
  have sp: "second_pass n ?s1 d (int (length ?p)) [] = Inr (Some (t, 0, ?p))"
    using second_pass_chain [OF ch1 _ fuel, of "int (length ?p)" "[]"] cont nm
    by (simp add: walk_continues_def after_walk_def)
  have it: "d_inode (dentries ?s1 t) = Some i" "inodes ?s1 = inodes s"
    using ino by (simp_all add: after_walk_def)
  show ?thesis
    unfolding ceph_build_dentry_path_def
    by (simp add: fp len km quietly sp it Let_def del: first_pass.simps second_pass.simps)
qed

text \<open>
  C3, as amended. Let the parent chain from the starting dentry \<open>d\<close> pass the dentries
  \<open>xs\<close>, each of them not the root and either without an inode or revalidated, and let
  it then reach \<open>t\<close>, the root or a dentry with an inode that is not revalidated. With
  non-empty names, a successful \<^verbatim>\<open>kmalloc\<close> and no other thread at work, the function
  returns the names of \<open>xs\<close> from the one nearest to \<open>t\<close> down to the one of \<open>d\<close>,
  with \<open>/\<close> between them and none in front, the length of this path, and the inode
  number of \<open>t\<close> as the base. A dentry without an inode is not asked whether it is
  trustworthy.
\<close>

theorem build_path_chain:
  assumes "on_chain s d xs t"
    and "\<forall>x\<in>set xs. walk_continues s x \<and> d_name (dentries s x) \<noteq> []"
    and "walk_stops s t"
    and "d_inode (dentries s t) = Some i"
    and "length xs < n"
    and "kmalloc_ok a" and "racing a = (\<lambda>s. s)"
  shows "ceph_build_dentry_path n (a # as) s (Some d) =
           Inr (after_walk s t,
                Path (join_path (rev (names_of s xs)))
                     (int (length (join_path (rev (names_of s xs)))))
                     (ceph_ino (inodes s i)))"
  using assms by (rule build_retry_chain)

theorem build_path_chain_witness:
  "ceph_build_dentry_path 5 [quiet] leased_fs (Some 3) =
     Inr (leased_fs, Path ''usr/lib/new'' 11 1)"
  using build_path_chain [of leased_fs 3 "[3, 2, 7]" 0 0 5 quiet "[]"]
  by (simp add: example_defs walk_continues_def walk_stops_def IS_ROOT_def
      ceph_dentry_revalidate_def after_walk_def names_of_def)

text \<open>
  C3 as stated fails. In \<open>unleased_fs\<close> no dentry is trustworthy. Started at
  \<open>usr/lib/new\<close>, which has no inode, the specification's walk stops at once, with
  an empty path and no base, while the function goes on to \<open>usr/lib\<close> and returns
  the path \<open>new\<close> relative to it. And when only the dentries above the starting one
  count as ancestors: started at \<open>usr/lib\<close>, which has an inode, the function stops
  at once and returns the empty path relative to \<open>usr/lib\<close> itself, while that walk
  takes the name \<open>lib\<close> and stops at \<open>usr\<close>.
\<close>

theorem build_path_negative_counterexample:
  "ceph_build_dentry_path 5 [quiet] unleased_fs (Some 3) =
     Inr (d_drop unleased_fs 2, Path ''new'' 3 17) \<and>
   spec_build_dentry_path 5 unleased_fs 3 [] = Some ('''', 0, None) \<and>
   ceph_build_dentry_path 5 [quiet] unleased_fs (Some 2) =
     Inr (d_drop unleased_fs 2, Path '''' 0 17) \<and>
   spec_build_dentry_path_above 5 unleased_fs 2 = Some (''lib'', 3, Some 16)"
  by (simp add: ceph_build_dentry_path_def spec_build_dentry_path_above_def eval_nat_numeral
      unleased_fs_def example_defs IS_ROOT_def ceph_dentry_revalidate_def trustworthy_def
      d_drop_def Let_def)

text \<open>
  C4. When the second loop ends with \<open>pos \<noteq> 0\<close>, the length of the first loop and
  what the second loop found do not agree: the buffer is given up and the result is that
  of the whole function started again on the cache as it is then. And every path that is
  returned is as long as the length returned with it.
\<close>

theorem build_path_retry_length:
  "(first_pass n s d 0 = Inr (s1, Some len0) \<and> kmalloc_ok a \<and>
    second_pass n (racing a s1) d (if len0 \<noteq> 0 then len0 - 1 else len0) [] =
      Inr (Some (temp, pos, path)) \<and> pos \<noteq> 0 \<longrightarrow>
    ceph_build_dentry_path n (a # as) s (Some d) =
      ceph_build_dentry_path n as (racing a s1) (Some d)) \<and>
   (ceph_build_dentry_path n' as' s' dentry = Inr (s'', Path p plen base) \<longrightarrow>
    plen = int (length p))"
proof (intro conjI impI)
  assume "first_pass n s d 0 = Inr (s1, Some len0) \<and> kmalloc_ok a \<and>
    second_pass n (racing a s1) d (if len0 \<noteq> 0 then len0 - 1 else len0) [] =
      Inr (Some (temp, pos, path)) \<and> pos \<noteq> 0"
  then show "ceph_build_dentry_path n (a # as) s (Some d) =
      ceph_build_dentry_path n as (racing a s1) (Some d)"
    by (simp add: ceph_build_dentry_path_def Let_def del: first_pass.simps second_pass.simps)
next
  assume "ceph_build_dentry_path n' as' s' dentry = Inr (s'', Path p plen base)"
  then show "plen = int (length p)"
    by (cases dentry) (auto simp: ceph_build_dentry_path_def dest: build_retry_length)
qed

theorem build_path_retry_length_witness:
  "ceph_build_dentry_path 5 [renaming, quiet] leased_fs (Some 3) =
     ceph_build_dentry_path 5 [quiet] (rename_to 2 ''libraries'' leased_fs) (Some 3) \<and>
   ceph_build_dentry_path 5 [renaming, quiet] leased_fs (Some 3) =
     Inr (rename_to 2 ''libraries'' leased_fs, Path ''usr/libraries/new'' 17 1) \<and>
   (17 :: int) = int (length ''usr/libraries/new'')"
  using build_path_retry_length
    [of 5 leased_fs 3 leased_fs 12 renaming 2 "-2" "''/new''" "[quiet]"
        5 "[renaming, quiet]" leased_fs "Some 3" "rename_to 2 ''libraries'' leased_fs"
        "''usr/libraries/new''" 17 1]
  by (simp add: ceph_build_dentry_path_def eval_nat_numeral example_defs renaming_def
      rename_to_def IS_ROOT_def ceph_dentry_revalidate_def Let_def)




subsection \<open>Lookup\<close>

lemma ENOENT_nonzero [simp]: "ENOENT \<noteq> 0" "- ENOENT \<noteq> 0"
  by (simp_all add: ENOENT_def)

text \<open>
  C7, as amended. A lookup that ends with \<^verbatim>\<open>-ENOENT\<close> and no trace is not returned
  as an error. A target dentry without an inode stays without one and is hashed. A target
  dentry with an inode keeps it and is dropped from the cache; a new dentry with the same
  name and parent, without an inode, is hashed and returned in its place.
  (\<^verbatim>\<open>ceph_init_dentry\<close> is taken to leave inode, name and parent alone.)
\<close>

theorem finish_lookup_enoent:
  assumes nt: "trace_numd req = 0"
    and ki: "d_inode (ceph_init_dentry e (dentries s dentry)) = d_inode (dentries s dentry)"
    and kn: "d_name (ceph_init_dentry e (dentries s dentry)) = d_name (dentries s dentry)"
    and kp: "d_parent (ceph_init_dentry e (dentries s dentry)) = d_parent (dentries s dentry)"
    and fresh: "dentry \<noteq> d_next s"
    and res: "ceph_finish_lookup e s req dentry (- ENOENT) = (s', req', r)"
  shows "\<not> IS_ERR r \<and>
    (case d_inode (dentries s dentry) of
       None \<Rightarrow> d_inode (dentries s' dentry) = None \<and> d_hashed (dentries s' dentry)
     | Some i \<Rightarrow>
         r = D_PTR (d_next s) \<and>
         d_inode (dentries s' dentry) = Some i \<and> \<not> d_hashed (dentries s' dentry) \<and>
         d_inode (dentries s' (d_next s)) = None \<and> d_hashed (dentries s' (d_next s)) \<and>
         d_name (dentries s' (d_next s)) = d_name (dentries s dentry) \<and>
         (d_parent (dentries s dentry) \<noteq> None \<longrightarrow>
          d_parent (dentries s' (d_next s)) = d_parent (dentries s dentry)))"
proof (cases "d_inode (dentries s dentry)")
  case None
  with nt ki res show ?thesis
    by (auto simp: ceph_finish_lookup_def Let_def d_add_def d_rehash_def d_instantiate_def
        split: option.splits if_splits)
next
  case (Some i)
  with nt ki kn kp fresh res show ?thesis
    by (auto simp: ceph_finish_lookup_def Let_def d_drop_def d_alloc_def d_rehash_def
        split: option.splits if_splits)
qed

theorem finish_lookup_enoent_witness:
  "\<not> IS_ERR (snd (snd (ceph_finish_lookup (example_env no_trace_mds) leased_fs lookup_req 2 (- ENOENT)))) \<and>
   snd (snd (ceph_finish_lookup (example_env no_trace_mds) leased_fs lookup_req 2 (- ENOENT))) = D_PTR 8 \<and>
   d_inode (dentries (fst (ceph_finish_lookup (example_env no_trace_mds) leased_fs lookup_req 2 (- ENOENT))) 8) = None \<and>
   d_hashed (dentries (fst (ceph_finish_lookup (example_env no_trace_mds) leased_fs lookup_req 2 (- ENOENT))) 8) \<and>
   \<not> IS_ERR (snd (snd (ceph_finish_lookup (example_env no_trace_mds) leased_fs lookup_new_req 3 (- ENOENT)))) \<and>
   d_inode (dentries (fst (ceph_finish_lookup (example_env no_trace_mds) leased_fs lookup_new_req 3 (- ENOENT))) 3) = None \<and>
   d_hashed (dentries (fst (ceph_finish_lookup (example_env no_trace_mds) leased_fs lookup_new_req 3 (- ENOENT))) 3)"
  using finish_lookup_enoent [of lookup_req "example_env no_trace_mds" leased_fs 2
      "fst (ceph_finish_lookup (example_env no_trace_mds) leased_fs lookup_req 2 (- ENOENT))"
      "fst (snd (ceph_finish_lookup (example_env no_trace_mds) leased_fs lookup_req 2 (- ENOENT)))"
      "snd (snd (ceph_finish_lookup (example_env no_trace_mds) leased_fs lookup_req 2 (- ENOENT)))"]
    finish_lookup_enoent [of lookup_new_req "example_env no_trace_mds" leased_fs 3
      "fst (ceph_finish_lookup (example_env no_trace_mds) leased_fs lookup_new_req 3 (- ENOENT))"
      "fst (snd (ceph_finish_lookup (example_env no_trace_mds) leased_fs lookup_new_req 3 (- ENOENT)))"
      "snd (snd (ceph_finish_lookup (example_env no_trace_mds) leased_fs lookup_new_req 3 (- ENOENT)))"]
  by (simp add: lookup_req_def lookup_new_req_def example_defs)

text \<open>
  C7 as stated fails for a target that has an inode: after the lookup of \<open>usr/lib\<close>
  the target dentry still has its inode and is not in the hash.
\<close>

theorem finish_lookup_positive_counterexample:
  "d_inode (dentries (fst (ceph_finish_lookup (example_env no_trace_mds) leased_fs lookup_req 2 (- ENOENT))) 2) = Some 2 \<and>
   \<not> d_hashed (dentries (fst (ceph_finish_lookup (example_env no_trace_mds) leased_fs lookup_req 2 (- ENOENT))) 2)"
  by (simp add: ceph_finish_lookup_def lookup_req_def example_defs Let_def d_drop_def
      d_alloc_def d_rehash_def)

subsection \<open>Replies without a trace\<close>

lemma do_request_eq:
  "ceph_mdsc_do_request e s req =
     (reply_fs (mds e s req), [Dispatch req],
      req\<lparr>trace_numd := reply_trace_numd (mds e s req), dir_items := reply_dir_items (mds e s req),
          r_last_dentry := reply_last_dentry (mds e s req)\<rparr>,
      reply_err (mds e s req))"
  by (simp add: ceph_mdsc_do_request_def Let_def)

lemma create_request_op:
  "ceph_mdsc_create_request e op ino1 path1 ino2 path2 ref mode = Inr req \<Longrightarrow> r_op req = op"
  by (auto simp: ceph_mdsc_create_request_def split: option.splits)















text \<open>The example cache, field by field, and its paths.\<close>

lemma leased_dentries:
  "d_parent (dentries leased_fs 7) = Some 0" "d_inode (dentries leased_fs 7) = Some 5"
  "d_name (dentries leased_fs 7) = ''usr''" "d_time (dentries leased_fs 7) = 7"
  "d_parent (dentries leased_fs 2) = Some 7" "d_inode (dentries leased_fs 2) = Some 2"
  "d_name (dentries leased_fs 2) = ''lib''" "d_time (dentries leased_fs 2) = 3"
  "d_parent (dentries leased_fs 4) = Some 0" "d_inode (dentries leased_fs 4) = Some 3"
  "d_name (dentries leased_fs 4) = ''tmp''" "d_time (dentries leased_fs 4) = 7"
  "d_parent (dentries leased_fs 5) = Some 7" "d_inode (dentries leased_fs 5) = Some 4"
  "d_name (dentries leased_fs 5) = ''f''" "d_time (dentries leased_fs 5) = 3"
  "d_parent (dentries leased_fs 6) = Some 4" "d_inode (dentries leased_fs 6) = None"
  "d_name (dentries leased_fs 6) = ''g''"
  "d_parent (dentries leased_fs 0) = Some 0" "d_inode (dentries leased_fs 0) = Some 0"
  by (simp_all add: leased_fs_def example_fs_def)

lemma leased_inodes:
  "i_version (inodes leased_fs 0) = 7" "ceph_ino (inodes leased_fs 0) = 1"
  "i_version (inodes leased_fs 5) = 3" "i_version (inodes leased_fs 3) = 4"
  "i_mode (inodes leased_fs 2) = 0x41ED" "i_mode (inodes leased_fs 4) = 0x81A4"
  "i_nlink (inodes leased_fs 4) = 1"
  "ceph_inode_lease_valid leased_fs i l" "\<not> ceph_dentry_lease_valid leased_fs x"
  by (simp_all add: leased_fs_def example_fs_def always_def never_def)

lemma leased_root:
  "IS_ROOT leased_fs 0" "\<not> IS_ROOT leased_fs 7" "\<not> IS_ROOT leased_fs 2"
  "\<not> IS_ROOT leased_fs 4" "\<not> IS_ROOT leased_fs 5" "\<not> IS_ROOT leased_fs 6"
  by (simp_all add: IS_ROOT_def leased_dentries)

lemma leased_revalidate:
  "ceph_dentry_revalidate leased_fs 7 = Inr (leased_fs, True)"
  "ceph_dentry_revalidate leased_fs 2 = Inr (leased_fs, True)"
  "ceph_dentry_revalidate leased_fs 4 = Inr (leased_fs, True)"
  "ceph_dentry_revalidate leased_fs 5 = Inr (leased_fs, True)"
  by (simp_all add: ceph_dentry_revalidate_def leased_dentries leased_inodes)

lemma leased_paths:
  "ceph_build_dentry_path 5 [quiet] leased_fs (Some 2) = Inr (leased_fs, Path ''usr/lib'' 7 1)"
  "ceph_build_dentry_path 5 [quiet] leased_fs (Some 5) = Inr (leased_fs, Path ''usr/f'' 5 1)"
  "ceph_build_dentry_path 5 [quiet] leased_fs (Some 6) = Inr (leased_fs, Path ''tmp/g'' 5 1)"
  using build_retry_chain [of leased_fs 2 "[2, 7]" 0 0 5 quiet "[]"]
    build_retry_chain [of leased_fs 5 "[5, 7]" 0 0 5 quiet "[]"]
    build_retry_chain [of leased_fs 6 "[6, 4]" 0 0 5 quiet "[]"]
  by (simp_all add: walk_continues_def walk_stops_def after_walk_def names_of_def quiet_def
      leased_dentries leased_inodes leased_root leased_revalidate)

lemma example_env_fields:
  "walk_fuel (example_env m) = 5" "attempts (example_env m) = [quiet]"
  "create_request_error (example_env m) op = None" "mds (example_env m) = m"
  "CEPH_STAT_MASK_INODE_ALL (example_env m) = 255"
  by (simp_all add: example_env_def)

lemmas op_eval =
  example_env_fields leased_paths leased_dentries leased_inodes ceph_mdsc_create_request_def
  ceph_mdsc_do_request_def no_trace_mds_def request_of_def Let_def

lemma mknod_example:
  "ceph_mknod (example_env no_trace_mds) leased_fs 3 6 0x81A4 0 =
     Inr (leased_fs, [LeaseRelease 3 None {CEPH_LOCK_ICONTENT}, Dispatch mknod_req, Dispatch lstat_req], 0)"
  by (simp add: ceph_mknod_def ceph_do_lookup_def ceph_finish_lookup_def NAME_MAX_def
      mknod_req_def lstat_req_def op_eval)




subsection \<open>Lease release before dispatch\<close>

lemma do_lookup_released:
  "ceph_do_lookup e s d m b = Inr (s', evs, r) \<Longrightarrow> released_before_dispatch dir rel evs"
  by (auto simp: ceph_do_lookup_def do_request_eq Let_def
      split: if_splits sum.splits option.splits path_ptr.splits prod.splits
      dest: create_request_op)

text \<open>
  In each operation the \<^verbatim>\<open>ICONTENT\<close> lease of the directory \<open>dir\<close> it is called with
  (\<^verbatim>\<open>old_dir\<close> for a rename) is released before the request is dispatched.
\<close>

lemma parent_released_before_dispatch:
  "(ceph_mknod e s dir dentry mode rdev = Inr (s', evs, err) \<longrightarrow>
      released_before_dispatch dir False evs) \<and>
   (ceph_symlink e s dir dentry dest = Inr (s', evs, err) \<longrightarrow>
      released_before_dispatch dir False evs) \<and>
   (ceph_mkdir e s dir dentry mode = Inr (s', evs, err) \<longrightarrow>
      released_before_dispatch dir False evs) \<and>
   (ceph_link e s old_dentry dir dentry = Inr (s', evs, err) \<longrightarrow>
      released_before_dispatch dir False evs) \<and>
   (ceph_unlink e s dir dentry = Inr (s', evs, err) \<longrightarrow>
      released_before_dispatch dir False evs) \<and>
   (ceph_rename e s dir old_dentry new_dir dentry = Inr (s', evs, err) \<longrightarrow>
      released_before_dispatch dir False evs)"
proof (intro conjI impI)
  assume "ceph_mknod e s dir dentry mode rdev = Inr (s', evs, err)"
  then show "released_before_dispatch dir False evs"
    by (auto simp: ceph_mknod_def do_request_eq Let_def
        split: sum.splits path_ptr.splits prod.splits if_splits option.splits
        dest: do_lookup_released [where dir = dir and rel = True])
next
  assume "ceph_symlink e s dir dentry dest = Inr (s', evs, err)"
  then show "released_before_dispatch dir False evs"
    by (auto simp: ceph_symlink_def do_request_eq Let_def
        split: sum.splits path_ptr.splits prod.splits if_splits)
next
  assume "ceph_mkdir e s dir dentry mode = Inr (s', evs, err)"
  then show "released_before_dispatch dir False evs"
    by (auto simp: ceph_mkdir_def do_request_eq Let_def
        split: sum.splits path_ptr.splits prod.splits if_splits)
next
  assume "ceph_link e s old_dentry dir dentry = Inr (s', evs, err)"
  then show "released_before_dispatch dir False evs"
    by (auto simp: ceph_link_def do_request_eq Let_def
        split: sum.splits path_ptr.splits prod.splits if_splits option.splits)
next
  assume "ceph_unlink e s dir dentry = Inr (s', evs, err)"
  then show "released_before_dispatch dir False evs"
    by (auto simp: ceph_unlink_def do_request_eq Let_def
        split: sum.splits path_ptr.splits prod.splits if_splits option.splits)
next
  assume "ceph_rename e s dir old_dentry new_dir dentry = Inr (s', evs, err)"
  then show "released_before_dispatch dir False evs"
    by (auto simp: ceph_rename_def do_request_eq Let_def
        split: sum.splits path_ptr.splits prod.splits if_splits option.splits)
qed

text \<open>
  C8 at a rename from one directory into another: \<^verbatim>\<open>ceph_rename\<close> of \<open>usr/f\<close> to
  \<open>tmp/g\<close> releases the lease of \<open>usr\<close> (inode 5) and dispatches the request; the
  \<^verbatim>\<open>ICONTENT\<close> lease of \<open>tmp\<close> (inode 3), the directory that receives the name, is
  not released before the dispatch. \<^verbatim>\<open>ceph_link\<close> of \<open>usr/f\<close> to \<open>tmp/g\<close>
  does release it.
\<close>

theorem rename_new_dir_lease_kept:
  "ceph_rename (example_env no_trace_mds) leased_fs 5 5 3 6 =
     Inr (d_move leased_fs 5 6,
          [LeaseRelease 5 (Some 5) {CEPH_LOCK_DN, CEPH_LOCK_ICONTENT}, Dispatch rename_req], 0) \<and>
   released_before_dispatch 5 False
     [LeaseRelease 5 (Some 5) {CEPH_LOCK_DN, CEPH_LOCK_ICONTENT}, Dispatch rename_req] \<and>
   \<not> released_before_dispatch 3 False
     [LeaseRelease 5 (Some 5) {CEPH_LOCK_DN, CEPH_LOCK_ICONTENT}, Dispatch rename_req] \<and>
   ceph_link (example_env no_trace_mds) leased_fs 5 3 6 =
     Inr (d_instantiate (inc_nlink leased_fs 4) 6 (Some 4),
          [LeaseRelease 3 None {CEPH_LOCK_ICONTENT}, Dispatch link_req], 0) \<and>
   released_before_dispatch 3 False
     [LeaseRelease 3 None {CEPH_LOCK_ICONTENT}, Dispatch link_req]"
  by (simp add: ceph_rename_def rename_req_def ceph_link_def link_req_def op_eval)

subsection \<open>Unlink and rmdir\<close>

lemma unlink_dispatches:
  assumes i: "d_inode (dentries s dentry) = Some i"
    and bp: "ceph_build_dentry_path (walk_fuel e) (attempts e) s (Some dentry) =
               Inr (s1, Path path pathlen pathbase)"
    and cr: "\<And>op. create_request_error e op = None"
    and keep: "\<And>req. reply_err (mds e s1 req) \<noteq> - ENOENT \<Longrightarrow>
                 reply_trace_numd (mds e s1 req) = 0 \<Longrightarrow>
                 d_inode (dentries (reply_fs (mds e s1 req)) dentry) \<noteq> None"
  shows "\<exists>s' err req.
           ceph_unlink e s dir dentry =
             Inr (s', [LeaseRelease dir (Some dentry) {CEPH_LOCK_DN, CEPH_LOCK_ICONTENT},
                       LeaseRelease i None {CEPH_LOCK_ILINK}, Dispatch req], err) \<and>
           r_op req = (if i_mode (inodes s i) AND S_IFMT = S_IFDIR then CEPH_MDS_OP_RMDIR
                       else CEPH_MDS_OP_UNLINK) \<and>
           r_ino1 req = pathbase \<and> r_path1 req = Some path"
proof -
  define req where "req =
    \<lparr>r_op = unlink_op (i_mode (inodes s i)), r_ino1 = pathbase, r_path1 = Some path,
     r_ino2 = 0, r_path2 = None, r_ref_dentry = dentry, r_mode = USE_AUTH_MDS,
     r_args = NoArgs, r_last_dentry = None, r_old_dentry = None, r_direct_hash = 0,
     r_direct_is_hash = False, trace_numd = 0, dir_items = []\<rparr>"
  have created: "ceph_mdsc_create_request e (unlink_op (i_mode (inodes s i))) pathbase
      (Some path) 0 None dentry USE_AUTH_MDS = Inr req"
    by (simp add: ceph_mdsc_create_request_def cr req_def)
  have "\<exists>s' err. ceph_unlink e s dir dentry =
      Inr (s', [LeaseRelease dir (Some dentry) {CEPH_LOCK_DN, CEPH_LOCK_ICONTENT},
                LeaseRelease i None {CEPH_LOCK_ILINK}, Dispatch req], err)"
  proof (cases "reply_err (mds e s1 req) \<noteq> - ENOENT \<and> reply_trace_numd (mds e s1 req) = 0")
    case True
    with keep [of req] obtain i' where
      "d_inode (dentries (reply_fs (mds e s1 req)) dentry) = Some i'"
      by auto
    with True i bp created show ?thesis
      by (simp add: ceph_unlink_def do_request_eq Let_def)
  next
    case False
    with i bp created show ?thesis
      by (auto simp: ceph_unlink_def do_request_eq Let_def)
  qed
  moreover have "r_op req = (if i_mode (inodes s i) AND S_IFMT = S_IFDIR then CEPH_MDS_OP_RMDIR
      else CEPH_MDS_OP_UNLINK)" "r_ino1 req = pathbase" "r_path1 req = Some path"
    by (simp_all add: req_def unlink_op_def)
  ultimately show ?thesis by blast
qed

lemma unlink_dispatches_only:
  assumes "d_inode (dentries s dentry) = Some i"
    and "ceph_unlink e s dir dentry = Inr (s', evs, err)" and "evs \<noteq> []"
  shows "dispatched evs =
      [if i_mode (inodes s i) AND S_IFMT = S_IFDIR then CEPH_MDS_OP_RMDIR
       else CEPH_MDS_OP_UNLINK]"
  using assms
  by (auto simp: ceph_unlink_def unlink_op_def do_request_eq Let_def
      split: sum.splits path_ptr.splits prod.splits if_splits option.splits
      dest: create_request_op)

text \<open>
  C10. The table \<^verbatim>\<open>ceph_dir_iops\<close> has \<^verbatim>\<open>ceph_unlink\<close> as its unlink and as its
  rmdir entry. When the dentry has an inode, its path is built and the request is
  created, \<^verbatim>\<open>ceph_unlink\<close> releases the leases and sends one request for that path:
  \<^verbatim>\<open>RMDIR\<close> when the file type of the inode is \<^verbatim>\<open>S_IFDIR\<close>, \<^verbatim>\<open>UNLINK\<close>
  otherwise. (The dentry is taken to have an inode still when the link count is dropped
  after the reply, so that no null pointer is followed.) No call sends a request with
  another opcode, or more than one.
\<close>

theorem unlink_serves_rmdir:
  "iop_unlink ceph_dir_iops = ceph_unlink \<and> iop_rmdir ceph_dir_iops = ceph_unlink \<and>
   (d_inode (dentries s dentry) = Some i \<and>
    ceph_build_dentry_path (walk_fuel e) (attempts e) s (Some dentry) =
      Inr (s1, Path path pathlen pathbase) \<and>
    (\<forall>op. create_request_error e op = None) \<and>
    (\<forall>req. reply_err (mds e s1 req) \<noteq> - ENOENT \<and> reply_trace_numd (mds e s1 req) = 0 \<longrightarrow>
           d_inode (dentries (reply_fs (mds e s1 req)) dentry) \<noteq> None) \<longrightarrow>
    (\<exists>s' err req.
       ceph_unlink e s dir dentry =
         Inr (s', [LeaseRelease dir (Some dentry) {CEPH_LOCK_DN, CEPH_LOCK_ICONTENT},
                   LeaseRelease i None {CEPH_LOCK_ILINK}, Dispatch req], err) \<and>
       r_op req = (if i_mode (inodes s i) AND S_IFMT = S_IFDIR then CEPH_MDS_OP_RMDIR
                   else CEPH_MDS_OP_UNLINK) \<and>
       r_ino1 req = pathbase \<and> r_path1 req = Some path)) \<and>
   (d_inode (dentries s dentry) = Some i \<and> ceph_unlink e s dir dentry = Inr (s', evs, err) \<and>
    evs \<noteq> [] \<longrightarrow>
    dispatched evs =
      [if i_mode (inodes s i) AND S_IFMT = S_IFDIR then CEPH_MDS_OP_RMDIR
       else CEPH_MDS_OP_UNLINK])"
proof (intro conjI impI; (elim conjE)?)
  show "iop_unlink ceph_dir_iops = ceph_unlink" "iop_rmdir ceph_dir_iops = ceph_unlink"
    by (simp_all add: ceph_dir_iops_def)
qed (rule unlink_dispatches unlink_dispatches_only; blast)+

text \<open>
  The theorem at the directory \<open>usr/lib\<close> and at the file \<open>usr/f\<close> of the example
  cache: the first call sends \<^verbatim>\<open>RMDIR\<close>, the second \<^verbatim>\<open>UNLINK\<close>.
\<close>

theorem unlink_serves_rmdir_witness:
  "(\<exists>s' err req.
      ceph_unlink (example_env no_trace_mds) leased_fs 5 2 =
        Inr (s', [LeaseRelease 5 (Some 2) {CEPH_LOCK_DN, CEPH_LOCK_ICONTENT},
                  LeaseRelease 2 None {CEPH_LOCK_ILINK}, Dispatch req], err) \<and>
      r_op req = CEPH_MDS_OP_RMDIR \<and> r_ino1 req = 1 \<and> r_path1 req = Some ''usr/lib'') \<and>
   (\<exists>s' err req.
      ceph_unlink (example_env no_trace_mds) leased_fs 5 5 =
        Inr (s', [LeaseRelease 5 (Some 5) {CEPH_LOCK_DN, CEPH_LOCK_ICONTENT},
                  LeaseRelease 4 None {CEPH_LOCK_ILINK}, Dispatch req], err) \<and>
      r_op req = CEPH_MDS_OP_UNLINK \<and> r_ino1 req = 1 \<and> r_path1 req = Some ''usr/f'')"
proof -
  have keep: "d_inode (dentries (reply_fs (mds (example_env no_trace_mds) leased_fs req)) 2) \<noteq> None"
    "d_inode (dentries (reply_fs (mds (example_env no_trace_mds) leased_fs req)) 5) \<noteq> None" for req
    by (simp_all add: example_env_fields no_trace_mds_def leased_dentries)
  have types: "i_mode (inodes leased_fs 2) AND S_IFMT = S_IFDIR"
    "i_mode (inodes leased_fs 4) AND S_IFMT \<noteq> S_IFDIR"
    by (simp_all add: leased_inodes S_IFMT_def S_IFDIR_def)
  show ?thesis
    using unlink_serves_rmdir [THEN conjunct2, THEN conjunct2, THEN conjunct1,
        of leased_fs 2 2 "example_env no_trace_mds" leased_fs "''usr/lib''" 7 1 5]
      unlink_serves_rmdir [THEN conjunct2, THEN conjunct2, THEN conjunct1,
        of leased_fs 5 4 "example_env no_trace_mds" leased_fs "''usr/f''" 5 1 5]
      keep types
    by (simp add: example_env_fields leased_paths leased_dentries)
qed

subsection \<open>Directory enumeration\<close>

lemma unat_of_nat_items:
  "length (items :: dir_item list) < 2 ^ 32 \<Longrightarrow> unat (of_nat (length items) :: u32) = length items"
  by (simp add: unat_of_nat)

lemma unat_succ_below:
  fixes a b :: u32
  assumes "a < b"
  shows "unat (a + 1) = Suc (unat a)"
proof -
  have "1 + a \<noteq> 0"
  proof
    assume "1 + a = 0"
    then have "a = - 1" by (simp add: add_eq_0_iff)
    with assms have "(- 1 :: u32) < b" by simp
    then show False by (simp add: word_order.not_eq_extremum)
  qed
  then show ?thesis using unatSuc [of a] by (simp add: add.commute)
qed

text \<open>
  With a \<^verbatim>\<open>filldir\<close> that takes every entry the loop hands out the entries of the
  reply from index \<^verbatim>\<open>off+skew\<close> on.
\<close>

lemma readdir_entries_collect:
  assumes small: "length items < 2 ^ 32"
  shows "readdir_entries collect frag skew items (off, pos, d) =
     (False, off + of_nat (length items - unat (off + skew)),
      pos + of_nat (length items - unat (off + skew)),
      d @ entries_of frag off (drop (unat (off + skew)) items))"
proof (induction "length items - unat (off + skew)" arbitrary: off pos d)
  case 0
  then have "\<not> off + skew < of_nat (length items)"
    using small by (simp add: word_less_nat_alt unat_of_nat_items)
  with 0 show ?case by (simp add: readdir_entries.simps)
next
  case (Suc k)
  then have below: "unat (off + skew) < length items" by simp
  then have lt: "off + skew < of_nat (length items)"
    using small by (simp add: word_less_nat_alt unat_of_nat_items)
  have next_index: "unat (off + 1 + skew) = Suc (unat (off + skew))"
    using unat_succ_below [OF lt] by (simp add: add.commute add.left_commute)
  have k: "k = length items - unat (off + 1 + skew)"
    using Suc.hyps(2) next_index by simp
  have rest: "drop (unat (off + skew)) items =
      items ! unat (off + skew) # drop (unat (off + 1 + skew)) items"
    using below next_index by (simp add: Cons_nth_drop_Suc)
  have count: "length items - unat (off + skew) = Suc (length items - unat (off + 1 + skew))"
    using below next_index by simp
  show ?case
    using lt Suc.hyps(1) [OF k]
    by (subst readdir_entries.simps)
      (simp add: collect_def rest count add.assoc add.commute add.left_commute)
qed

lemma readdir_dots_collect:
  "d_inode (dentries s p) = Some pi \<Longrightarrow>
   readdir_dots collect s ino (Some p) (off, pos, d) =
     Inr (False, (if off = 0 \<or> off = 1 then 2 else off),
          pos + of_nat (length (dots_of ino (inodes s pi) off)),
          d @ dots_of ino (inodes s pi) off)"
  by (simp add: readdir_dots_def readdir_dot_def readdir_dotdot_def collect_def dots_of_def)

text \<open>
  One pass from \<^verbatim>\<open>nextfrag\<close> with a \<^verbatim>\<open>filldir\<close> that takes every entry:
  \<open>.\<close> and \<open>..\<close> only in a leftmost fragment, then the entries of the reply from
  the offset on; after them the next fragment at offset 0 when value and mask differ, and
  the return of 0 when they are equal.
\<close>

lemma readdir_frags_step:
  assumes fetch: "readdir_fetch fo e s filp inode frag = (s1, filp1, evs1, Inr frag1)"
    and rinfo: "last_readdir filp1 = Some rinfo"
    and par: "d_parent (dentries s1 (f_dentry filp1)) = Some p" "d_inode (dentries s1 p) = Some pi"
    and small: "length (dir_items rinfo) < 2 ^ 32"
  shows "readdir_frags (Suc n) fo e collect inode s filp d evs frag off =
    (let lm = frag_is_leftmost fo frag1;
         dots = (if lm then dots_of (inodes s1 inode) (inodes s1 pi) off else []);
         off1 = (if lm \<and> (off = 0 \<or> off = 1) then 2 else off);
         rest = drop (unat (off1 + (if lm then - 2 else 0))) (dir_items rinfo);
         d' = d @ dots @ entries_of frag1 off1 rest
     in if frag_value fo frag1 \<noteq> frag_mask fo frag1
        then readdir_frags n fo e collect inode s1
               (filp1\<lparr>f_pos := make_fpos (frag_next fo frag1) 0\<rparr>) d' (evs @ evs1)
               (frag_next fo frag1) 0
        else Inr (s1, filp1\<lparr>f_pos := f_pos filp1 + of_nat (length dots + length rest)\<rparr>,
                  d', evs @ evs1, 0))"
proof (cases "frag_is_leftmost fo frag1")
  case True
  show ?thesis
    using fetch rinfo par True
    by (simp add: readdir_dots_collect readdir_entries_collect [OF small] Let_def add.assoc)
next
  case False
  show ?thesis
    using fetch rinfo par False
    by (simp add: readdir_entries_collect [OF small] Let_def)
qed

lemma readdir_fetch_fresh:
  assumes "create_request_error e CEPH_MDS_OP_READDIR = None" and "mds e = readdir_mds listing"
    and "fi_frag filp \<noteq> frag \<or> last_readdir filp = None"
  shows "\<exists>req evs. readdir_fetch fo e s filp inode frag =
            (s, filp\<lparr>last_readdir := Some req\<rparr>, evs, Inr (ceph_choose_frag fo inode frag)) \<and>
          dir_items req = listing (ceph_choose_frag fo inode frag)"
  using assms
  by (auto simp: readdir_fetch_def ceph_mdsc_create_request_def ceph_mdsc_do_request_def
      readdir_mds_def Let_def)

lemma make_fpos_succ: "make_fpos frag 0 + 1 = make_fpos frag 1"
  by (simp add: make_fpos_def or_one_eq)

text \<open>
  A directory of three entries in two fragments, read from position 0 into a buffer that
  takes everything, and read once more from the position reached.
\<close>

lemma readdir_scenario:
  assumes cr: "create_request_error e CEPH_MDS_OP_READDIR = None"
    and m: "mds e = readdir_mds listing"
    and ino: "d_inode (dentries s (f_dentry filp)) = Some inode"
    and par: "d_parent (dentries s (f_dentry filp)) = Some p" "d_inode (dentries s p) = Some pi"
    and f0: "ceph_choose_frag fo inode 0 = F0" "frag_is_leftmost fo F0"
      "frag_value fo F0 \<noteq> frag_mask fo F0" "frag_next fo F0 = F1"
    and f1: "ceph_choose_frag fo inode F1 = F1" "\<not> frag_is_leftmost fo F1"
      "frag_value fo F1 = frag_mask fo F1" "fi_frag filp \<noteq> F1"
    and ls: "listing F0 = [e1, e2]" "listing F1 = [e3]"
    and st: "f_pos filp = 0" "last_readdir filp = None"
  shows "\<exists>filp' evs.
     ceph_readdir (Suc (Suc n)) fo e collect s filp [] =
       Inr (s, filp',
            [(''.'', make_fpos 0 0, i_ino (inodes s inode), drop_bit 12 (i_mode (inodes s inode))),
             (''..'', make_fpos 0 1, i_ino (inodes s pi), drop_bit 12 (i_mode (inodes s inode))),
             (dir_dname e1, make_fpos F0 2, dir_ino e1, drop_bit 12 (dir_mode e1)),
             (dir_dname e2, make_fpos F0 3, dir_ino e2, drop_bit 12 (dir_mode e2)),
             (dir_dname e3, make_fpos F1 0, dir_ino e3, drop_bit 12 (dir_mode e3))],
            evs, 0) \<and>
     f_pos filp' = make_fpos F1 1 \<and>
     (\<exists>filp'' evs'. ceph_readdir (Suc (Suc n)) fo e collect s filp' [] = Inr (s, filp'', [], evs', 0))"
proof -
  have dec0: "fpos_frag (f_pos filp) = 0" "fpos_off (f_pos filp) = 0"
    using st by (simp_all add: fpos_frag_def fpos_off_def)
  from readdir_fetch_fresh [OF cr m, of filp 0 fo s inode] st f0 ls
  obtain req0 evs0 where
    fetch0: "readdir_fetch fo e s filp inode 0 = (s, filp\<lparr>last_readdir := Some req0\<rparr>, evs0, Inr F0)"
    and items0: "dir_items req0 = [e1, e2]"
    by auto
  let ?filp1 = "(filp\<lparr>last_readdir := Some req0\<rparr>)\<lparr>f_pos := make_fpos F1 0\<rparr>"
  from readdir_fetch_fresh [OF cr m, of ?filp1 F1 fo s inode] f1 ls
  obtain req1 evs1 where
    fetch1: "readdir_fetch fo e s ?filp1 inode F1 = (s, ?filp1\<lparr>last_readdir := Some req1\<rparr>, evs1, Inr F1)"
    and items1: "dir_items req1 = [e3]"
    by auto
  let ?out = "[(''.'', make_fpos 0 0, i_ino (inodes s inode), drop_bit 12 (i_mode (inodes s inode))),
             (''..'', make_fpos 0 1, i_ino (inodes s pi), drop_bit 12 (i_mode (inodes s inode))),
             (dir_dname e1, make_fpos F0 2, dir_ino e1, drop_bit 12 (dir_mode e1)),
             (dir_dname e2, make_fpos F0 3, dir_ino e2, drop_bit 12 (dir_mode e2)),
             (dir_dname e3, make_fpos F1 0, dir_ino e3, drop_bit 12 (dir_mode e3))]"
  let ?filp2 = "(?filp1\<lparr>last_readdir := Some req1\<rparr>)\<lparr>f_pos := make_fpos F1 1\<rparr>"
  have step2: "readdir_frags (Suc n) fo e collect inode s ?filp1 d evs F1 0 =
      Inr (s, ?filp2, d @ [(dir_dname e3, make_fpos F1 0, dir_ino e3, drop_bit 12 (dir_mode e3))],
           evs @ evs1, 0)" for d evs
    using readdir_frags_step [OF fetch1, of req1 p pi n d evs 0] par f1 items1
    by (simp add: Let_def make_fpos_succ)
  have step1: "readdir_frags (Suc (Suc n)) fo e collect inode s filp [] [] 0 0 =
      Inr (s, ?filp2, ?out, evs0 @ evs1, 0)"
    using readdir_frags_step [OF fetch0, of req0 p pi "Suc n" "[]" "[]" 0] par f0 items0 step2
    by (simp add: Let_def dots_of_def del: readdir_frags.simps)
  have first: "ceph_readdir (Suc (Suc n)) fo e collect s filp [] = Inr (s, ?filp2, ?out, evs0 @ evs1, 0)"
    using ino dec0 step1 by (simp add: ceph_readdir_def del: readdir_frags.simps)
  have dec2: "fpos_frag (f_pos ?filp2) = F1" "fpos_off (f_pos ?filp2) = 1"
    by (simp_all add: fpos_frag_make_fpos fpos_off_make_fpos)
  from readdir_fetch_fresh [OF cr m, of ?filp2 F1 fo s inode] f1 ls
  obtain req2 evs2 where
    fetch2: "readdir_fetch fo e s ?filp2 inode F1 = (s, ?filp2\<lparr>last_readdir := Some req2\<rparr>, evs2, Inr F1)"
    and items2: "dir_items req2 = [e3]"
    by auto
  have again: "readdir_frags (Suc (Suc n)) fo e collect inode s ?filp2 [] [] F1 1 =
      Inr (s, (?filp2\<lparr>last_readdir := Some req2\<rparr>)\<lparr>f_pos := make_fpos F1 1\<rparr>, [], evs2, 0)"
    using readdir_frags_step [OF fetch2, of req2 p pi "Suc n" "[]" "[]" 1] par f1 items2
    by (simp add: Let_def del: readdir_frags.simps)
  have second: "ceph_readdir (Suc (Suc n)) fo e collect s ?filp2 [] =
      Inr (s, (?filp2\<lparr>last_readdir := Some req2\<rparr>)\<lparr>f_pos := make_fpos F1 1\<rparr>, [], evs2, 0)"
    using ino dec2 again by (simp add: ceph_readdir_def del: readdir_frags.simps)
  show ?thesis
    using first second by (intro exI conjI) simp_all
qed

text \<open>
  One call with a \<^verbatim>\<open>filldir\<close> that takes every entry: a pass over a fragment
  hands out \<open>.\<close> (at offset 0) and \<open>..\<close> (at offset 1) only when the fragment is
  leftmost, then the entries of the fragment from the offset on; when the value of the
  fragment differs from its mask the enumeration goes on with the next fragment at offset
  0, and when they are equal it returns 0. So a directory of three entries in two
  fragments, read from position 0, yields \<open>.\<close>, \<open>..\<close>, the two entries of the first
  fragment and the entry of the second; reading on from there yields nothing more.
\<close>

lemma readdir_fragments:
  "(readdir_fetch fo e s filp inode frag = (s1, filp1, evs1, Inr frag1) \<and>
    last_readdir filp1 = Some rinfo \<and>
    d_parent (dentries s1 (f_dentry filp1)) = Some p \<and> d_inode (dentries s1 p) = Some pi \<and>
    length (dir_items rinfo) < 2 ^ 32 \<longrightarrow>
    readdir_frags (Suc n) fo e collect inode s filp d evs frag off =
      (let lm = frag_is_leftmost fo frag1;
           dots = (if lm then dots_of (inodes s1 inode) (inodes s1 pi) off else []);
           off1 = (if lm \<and> (off = 0 \<or> off = 1) then 2 else off);
           rest = drop (unat (off1 + (if lm then - 2 else 0))) (dir_items rinfo);
           d' = d @ dots @ entries_of frag1 off1 rest
       in if frag_value fo frag1 \<noteq> frag_mask fo frag1
          then readdir_frags n fo e collect inode s1
                 (filp1\<lparr>f_pos := make_fpos (frag_next fo frag1) 0\<rparr>) d' (evs @ evs1)
                 (frag_next fo frag1) 0
          else Inr (s1, filp1\<lparr>f_pos := f_pos filp1 + of_nat (length dots + length rest)\<rparr>,
                    d', evs @ evs1, 0))) \<and>
   (create_request_error e CEPH_MDS_OP_READDIR = None \<and> mds e = readdir_mds listing \<and>
    d_inode (dentries s (f_dentry filp)) = Some inode \<and>
    d_parent (dentries s (f_dentry filp)) = Some p \<and> d_inode (dentries s p) = Some pi \<and>
    ceph_choose_frag fo inode 0 = F0 \<and> frag_is_leftmost fo F0 \<and>
    frag_value fo F0 \<noteq> frag_mask fo F0 \<and> frag_next fo F0 = F1 \<and>
    ceph_choose_frag fo inode F1 = F1 \<and> \<not> frag_is_leftmost fo F1 \<and>
    frag_value fo F1 = frag_mask fo F1 \<and> fi_frag filp \<noteq> F1 \<and>
    listing F0 = [e1, e2] \<and> listing F1 = [e3] \<and>
    f_pos filp = 0 \<and> last_readdir filp = None \<longrightarrow>
    (\<exists>filp' evs.
       ceph_readdir (Suc (Suc n)) fo e collect s filp [] =
         Inr (s, filp',
              [(''.'', make_fpos 0 0, i_ino (inodes s inode), drop_bit 12 (i_mode (inodes s inode))),
               (''..'', make_fpos 0 1, i_ino (inodes s pi), drop_bit 12 (i_mode (inodes s inode))),
               (dir_dname e1, make_fpos F0 2, dir_ino e1, drop_bit 12 (dir_mode e1)),
               (dir_dname e2, make_fpos F0 3, dir_ino e2, drop_bit 12 (dir_mode e2)),
               (dir_dname e3, make_fpos F1 0, dir_ino e3, drop_bit 12 (dir_mode e3))],
              evs, 0) \<and>
       f_pos filp' = make_fpos F1 1 \<and>
       (\<exists>filp'' evs'.
          ceph_readdir (Suc (Suc n)) fo e collect s filp' [] = Inr (s, filp'', [], evs', 0))))"
  using readdir_frags_step [of fo e s filp inode frag s1 filp1 evs1 frag1 rinfo p pi n d evs off]
    readdir_scenario [of e listing s filp inode p pi fo F0 F1 e1 e2 e3 n]
  by blast

lemma example_frags:
  "ceph_choose_frag example_frag_ops 5 0 = 0x1000000"
  "frag_is_leftmost example_frag_ops 0x1000000"
  "frag_value example_frag_ops 0x1000000 \<noteq> frag_mask example_frag_ops 0x1000000"
  "frag_next example_frag_ops 0x1000000 = 0x1800000"
  "ceph_choose_frag example_frag_ops 5 0x1800000 = 0x1800000"
  "\<not> frag_is_leftmost example_frag_ops 0x1800000"
  "frag_value example_frag_ops 0x1800000 = frag_mask example_frag_ops 0x1800000"
  by (simp_all add: example_frag_ops_def frag_bits_def)

lemma example_dir_fields:
  "d_inode (dentries leased_fs (f_dentry example_dir)) = Some 5"
  "d_parent (dentries leased_fs (f_dentry example_dir)) = Some 0"
  "fi_frag example_dir \<noteq> 0x1800000" "f_pos example_dir = 0" "last_readdir example_dir = None"
  "example_listing 0x1000000 = [entry_a, entry_b]" "example_listing 0x1800000 = [entry_c]"
  "d_inode (dentries leased_fs (f_dentry cached_dir)) = Some 5"
  "d_parent (dentries leased_fs (f_dentry cached_dir)) = Some 0"
  "last_readdir cached_dir = Some cached_req" "dir_items cached_req = [entry_c]"
  "f_pos cached_dir = make_fpos 0x1800000 0"
  by (simp_all add: example_dir_def cached_dir_def cached_req_def example_listing_def
      request_of_def leased_dentries)

lemma cached_fetch:
  "readdir_fetch example_frag_ops (example_env (readdir_mds example_listing)) leased_fs cached_dir
     5 0x1800000 = (leased_fs, cached_dir, [], Inr 0x1800000)"
  by (simp add: readdir_fetch_def cached_dir_def)

lemma readdir_fragments_example:
  "readdir_frags (Suc 0) example_frag_ops (example_env (readdir_mds example_listing)) collect 5
     leased_fs cached_dir [] [] 0x1800000 0 =
     Inr (leased_fs, cached_dir\<lparr>f_pos := make_fpos 0x1800000 1\<rparr>,
          [(''c'', make_fpos 0x1800000 0, 34, 8)], [], 0) \<and>
   (\<exists>filp' evs.
      ceph_readdir (Suc (Suc 0)) example_frag_ops (example_env (readdir_mds example_listing))
        collect leased_fs example_dir [] =
        Inr (leased_fs, filp',
             [(''.'', make_fpos 0 0, 16, 4), (''..'', make_fpos 0 1, 1, 4),
              (''a'', make_fpos 0x1000000 2, 32, 8), (''b'', make_fpos 0x1000000 3, 33, 4),
              (''c'', make_fpos 0x1800000 0, 34, 8)], evs, 0) \<and>
      f_pos filp' = make_fpos 0x1800000 1 \<and>
      (\<exists>filp'' evs'.
         ceph_readdir (Suc (Suc 0)) example_frag_ops (example_env (readdir_mds example_listing))
           collect leased_fs filp' [] = Inr (leased_fs, filp'', [], evs', 0)))"
proof -
  have vals: "i_ino (inodes leased_fs 5) = 16" "i_mode (inodes leased_fs 5) = 0x41ED"
    "i_ino (inodes leased_fs 0) = 1"
    by (simp_all add: leased_fs_def example_fs_def)
  have types: "drop_bit 12 (0x41ED :: u32) = 4" "drop_bit 12 (0x81A4 :: u32) = 8"
    by (simp_all add: drop_bit_eq_div)
  have entries: "dir_dname entry_a = ''a''" "dir_ino entry_a = 32" "dir_mode entry_a = 0x81A4"
    "dir_dname entry_b = ''b''" "dir_ino entry_b = 33" "dir_mode entry_b = 0x41ED"
    "dir_dname entry_c = ''c''" "dir_ino entry_c = 34" "dir_mode entry_c = 0x81A4"
    by (simp_all add: entry_a_def entry_b_def entry_c_def)
  have step: "readdir_frags (Suc 0) example_frag_ops (example_env (readdir_mds example_listing))
      collect 5 leased_fs cached_dir [] [] 0x1800000 0 =
      Inr (leased_fs, cached_dir\<lparr>f_pos := make_fpos 0x1800000 1\<rparr>,
           [(''c'', make_fpos 0x1800000 0, 34, 8)], [], 0)"
    using readdir_fragments [of example_frag_ops "example_env (readdir_mds example_listing)"
        leased_fs cached_dir 5 "0x1800000" leased_fs cached_dir "[]" "0x1800000" cached_req 0 0
        0 "[]" "[]" 0]
      cached_fetch example_dir_fields example_frags leased_dentries
    by (simp add: Let_def entries types make_fpos_succ)
  have scen: "\<exists>filp' evs.
      ceph_readdir (Suc (Suc 0)) example_frag_ops (example_env (readdir_mds example_listing))
        collect leased_fs example_dir [] =
        Inr (leased_fs, filp',
             [(''.'', make_fpos 0 0, 16, 4), (''..'', make_fpos 0 1, 1, 4),
              (''a'', make_fpos 0x1000000 2, 32, 8), (''b'', make_fpos 0x1000000 3, 33, 4),
              (''c'', make_fpos 0x1800000 0, 34, 8)], evs, 0) \<and>
      f_pos filp' = make_fpos 0x1800000 1 \<and>
      (\<exists>filp'' evs'.
         ceph_readdir (Suc (Suc 0)) example_frag_ops (example_env (readdir_mds example_listing))
           collect leased_fs filp' [] = Inr (leased_fs, filp'', [], evs', 0))"
    using readdir_fragments [where fo = example_frag_ops
        and e = "example_env (readdir_mds example_listing)" and listing = example_listing
        and s = leased_fs and filp = example_dir and inode = 5 and p = 0 and pi = 0
        and ?F0.0 = "0x1000000" and ?F1.0 = "0x1800000"
        and ?e1.0 = entry_a and ?e2.0 = entry_b and ?e3.0 = entry_c and n = 0]
      example_dir_fields example_frags leased_dentries example_env_fields
    by (simp add: vals types entries)
  from step scen show ?thesis by blast
qed

text \<open>
  A call that finds a cached reply and \<^verbatim>\<open>fi->frag\<close> equal to the fragment decoded
  from the position asks nothing and goes on with the decoded fragment, not with the
  one \<^verbatim>\<open>ceph_choose_frag\<close> gave when the reply was fetched.
\<close>

lemma readdir_fetch_cached:
  "fi_frag filp = frag \<Longrightarrow> last_readdir filp = Some r \<Longrightarrow>
   readdir_fetch fo e s filp inode frag = (s, filp, [], Inr frag)"
  by (simp add: readdir_fetch_def)

lemma example_frag_root:
  "frag_is_leftmost example_frag_ops 0"
  "frag_value example_frag_ops 0 = frag_mask example_frag_ops 0"
  by (simp_all add: example_frag_ops_def frag_bits_def)

lemma example_values:
  "i_ino (inodes leased_fs 5) = 16" "i_mode (inodes leased_fs 5) = 0x41ED"
  "i_ino (inodes leased_fs 0) = 1"
  "drop_bit 12 (0x41ED :: u32) = 4" "drop_bit 12 (0x81A4 :: u32) = 8"
  "dir_dname entry_a = ''a''" "dir_ino entry_a = 32" "dir_mode entry_a = 0x81A4"
  "dir_dname entry_b = ''b''" "dir_ino entry_b = 33" "dir_mode entry_b = 0x41ED"
  by (simp_all add: leased_fs_def example_fs_def drop_bit_eq_div entry_a_def entry_b_def)

lemma resumed_dir_fields:
  "f_dentry (resumed_dir pos) = 7" "fi_frag (resumed_dir pos) = 0"
  "f_pos (resumed_dir pos) = pos"
  "last_readdir (resumed_dir pos) =
     Some ((readdir_req 0x1000000)\<lparr>dir_items := [entry_a, entry_b]\<rparr>)"
  "(resumed_dir pos)\<lparr>f_pos := pos'\<rparr> = resumed_dir pos'"
  "example_dir\<lparr>last_readdir :=
      Some ((readdir_req 0x1000000)\<lparr>dir_items := [entry_a, entry_b]\<rparr>), f_pos := pos'\<rparr> =
   resumed_dir pos'"
  by (simp_all add: resumed_dir_def example_dir_def)

lemma bounded_first_call:
  "ceph_readdir (Suc (Suc 0)) example_frag_ops (example_env (readdir_mds example_listing))
     (bounded 3) leased_fs example_dir [] =
     Inr (leased_fs, resumed_dir 3,
          [(''.'', make_fpos 0 0, 16, 4), (''..'', make_fpos 0 1, 1, 4),
           (''a'', make_fpos 0x1000000 2, 32, 8)],
          [Dispatch (readdir_req 0x1000000)], 0)"
proof -
  have fetch: "readdir_fetch example_frag_ops (example_env (readdir_mds example_listing))
      leased_fs example_dir 5 0 =
      (leased_fs, example_dir\<lparr>last_readdir :=
          Some ((readdir_req 0x1000000)\<lparr>dir_items := [entry_a, entry_b]\<rparr>)\<rparr>,
       [Dispatch (readdir_req 0x1000000)], Inr 0x1000000)"
    by (simp add: readdir_fetch_def example_dir_def example_frag_ops_def example_env_fields
        ceph_mdsc_create_request_def ceph_mdsc_do_request_def readdir_mds_def readdir_req_def
        request_of_def example_listing_def leased_fs_def example_fs_def Let_def)
  have dots: "readdir_dots (bounded 3) leased_fs (inodes leased_fs 5) (Some 0) (0, 0, []) =
      Inr (False, 2, 2, [(''.'', make_fpos 0 0, 16, 4), (''..'', make_fpos 0 1, 1, 4)])"
    by (simp add: readdir_dots_def readdir_dot_def readdir_dotdot_def bounded_def
        leased_dentries example_values)
  have entries: "readdir_entries (bounded 3) 0x1000000 (- 2) [entry_a, entry_b]
      (2, 2, [(''.'', make_fpos 0 0, 16, 4), (''..'', make_fpos 0 1, 1, 4)]) =
      (True, 3, 3, [(''.'', make_fpos 0 0, 16, 4), (''..'', make_fpos 0 1, 1, 4),
                    (''a'', make_fpos 0x1000000 2, 32, 8)])"
    by (simp add: readdir_entries.simps bounded_def example_values EINVAL_def)
  have pass: "readdir_frags (Suc (Suc 0)) example_frag_ops
      (example_env (readdir_mds example_listing)) (bounded 3) 5 leased_fs example_dir [] [] 0 0 =
      Inr (leased_fs, resumed_dir 3,
           [(''.'', make_fpos 0 0, 16, 4), (''..'', make_fpos 0 1, 1, 4),
            (''a'', make_fpos 0x1000000 2, 32, 8)],
           [Dispatch (readdir_req 0x1000000)], 0)"
    using dots entries
    by (simp add: fetch example_frags example_dir_fields leased_dentries resumed_dir_fields)
  have dec: "fpos_frag 0 = 0" "fpos_off 0 = 0"
    by (simp_all add: fpos_frag_def fpos_off_def)
  show ?thesis
    by (simp add: ceph_readdir_def example_dir_fields dec pass del: readdir_frags.simps)
qed

text \<open>A call that resumes at position \<open>pos\<close> in the first fragment.\<close>

lemma bounded_resumed_call:
  assumes dec: "fpos_frag pos = 0"
    and entries: "readdir_entries (bounded 3) 0 (- 2) [entry_a, entry_b] (fpos_off pos, pos, []) =
      (False, off', pos', out)"
    and nodots: "fpos_off pos \<noteq> 0" "fpos_off pos \<noteq> 1"
  shows "ceph_readdir (Suc (Suc 0)) example_frag_ops (example_env (readdir_mds example_listing))
     (bounded 3) leased_fs (resumed_dir pos) [] =
     Inr (leased_fs, resumed_dir pos', out, [], 0)"
proof -
  have fetch: "readdir_fetch example_frag_ops (example_env (readdir_mds example_listing))
      leased_fs (resumed_dir pos) 5 0 = (leased_fs, resumed_dir pos, [], Inr 0)"
    by (rule readdir_fetch_cached) (simp_all add: resumed_dir_fields)
  have dots: "readdir_dots (bounded 3) leased_fs (inodes leased_fs 5) (Some 0)
      (fpos_off pos, pos, []) = Inr (False, fpos_off pos, pos, [])"
    using nodots by (simp add: readdir_dots_def)
  have items: "dir_items ((readdir_req 0x1000000)\<lparr>dir_items := [entry_a, entry_b]\<rparr>) =
      [entry_a, entry_b]"
    by simp
  have pass: "readdir_frags (Suc (Suc 0)) example_frag_ops
      (example_env (readdir_mds example_listing)) (bounded 3) 5 leased_fs (resumed_dir pos)
      [] [] 0 (fpos_off pos) = Inr (leased_fs, resumed_dir pos', out, [], 0)"
    using dots entries
    by (simp add: fetch example_frag_root leased_dentries resumed_dir_fields items)
  show ?thesis
    using dec
    by (simp add: ceph_readdir_def resumed_dir_fields leased_dentries pass
        del: readdir_frags.simps)
qed

lemma bounded_second_call:
  "ceph_readdir (Suc (Suc 0)) example_frag_ops (example_env (readdir_mds example_listing))
     (bounded 3) leased_fs (resumed_dir 3) [] =
     Inr (leased_fs, resumed_dir 4, [(''b'', make_fpos 0 3, 33, 4)], [], 0)"
proof -
  have dec: "fpos_frag 3 = 0" "fpos_off 3 = 3" "fpos_off 3 \<noteq> 0" "fpos_off 3 \<noteq> 1"
    by (simp_all add: fpos_frag_def fpos_off_def)
  have entries: "readdir_entries (bounded 3) 0 (- 2) [entry_a, entry_b] (3, 3, []) =
      (False, 4, 4, [(''b'', make_fpos 0 3, 33, 4)])"
    by (simp add: readdir_entries.simps bounded_def example_values)
  show ?thesis
    using bounded_resumed_call [of 3 4 4 "[(''b'', make_fpos 0 3, 33, 4)]"] dec entries
    by simp
qed

lemma bounded_third_call:
  "ceph_readdir (Suc (Suc 0)) example_frag_ops (example_env (readdir_mds example_listing))
     (bounded 3) leased_fs (resumed_dir 4) [] =
     Inr (leased_fs, resumed_dir 4, [], [], 0)"
proof -
  have dec: "fpos_frag 4 = 0" "fpos_off 4 = 4" "fpos_off 4 \<noteq> 0" "fpos_off 4 \<noteq> 1"
    by (simp_all add: fpos_frag_def fpos_off_def)
  have entries: "readdir_entries (bounded 3) 0 (- 2) [entry_a, entry_b] (4, 4, []) =
      (False, 4, 4, [])"
    by (simp add: readdir_entries.simps)
  show ?thesis
    using bounded_resumed_call [of 4 4 4 "[]"] dec entries
    by simp
qed

text \<open>
  C5 at a directory read in several calls. The directory \<open>usr\<close> has the entries
  \<open>a\<close> and \<open>b\<close> in its first fragment and \<open>c\<close> in its second. Read from
  position 0 in one call into a buffer that takes everything, it yields \<open>.\<close>,
  \<open>..\<close>, \<open>a\<close>, \<open>b\<close> and \<open>c\<close>. Read from position 0 into a buffer of three
  entries, the first call yields \<open>.\<close>, \<open>..\<close> and \<open>a\<close> and leaves the position
  at 3; the second call decodes fragment 0 from that position, finds the reply of the
  first fragment cached, yields \<open>b\<close> and returns at position 4, since value and mask
  of fragment 0 are equal; every later call yields nothing. The entry \<open>c\<close> of the
  second fragment is never handed out.
\<close>

theorem readdir_resumed_misses_fragment:
  "(\<exists>filp' evs.
      ceph_readdir (Suc (Suc 0)) example_frag_ops (example_env (readdir_mds example_listing))
        collect leased_fs example_dir [] =
        Inr (leased_fs, filp',
             [(''.'', make_fpos 0 0, 16, 4), (''..'', make_fpos 0 1, 1, 4),
              (''a'', make_fpos 0x1000000 2, 32, 8), (''b'', make_fpos 0x1000000 3, 33, 4),
              (''c'', make_fpos 0x1800000 0, 34, 8)], evs, 0)) \<and>
   ceph_readdir (Suc (Suc 0)) example_frag_ops (example_env (readdir_mds example_listing))
     (bounded 3) leased_fs example_dir [] =
     Inr (leased_fs, resumed_dir 3,
          [(''.'', make_fpos 0 0, 16, 4), (''..'', make_fpos 0 1, 1, 4),
           (''a'', make_fpos 0x1000000 2, 32, 8)],
          [Dispatch (readdir_req 0x1000000)], 0) \<and>
   ceph_readdir (Suc (Suc 0)) example_frag_ops (example_env (readdir_mds example_listing))
     (bounded 3) leased_fs (resumed_dir 3) [] =
     Inr (leased_fs, resumed_dir 4, [(''b'', make_fpos 0 3, 33, 4)], [], 0) \<and>
   ceph_readdir (Suc (Suc 0)) example_frag_ops (example_env (readdir_mds example_listing))
     (bounded 3) leased_fs (resumed_dir 4) [] =
     Inr (leased_fs, resumed_dir 4, [], [], 0)"
  using readdir_fragments_example bounded_first_call bounded_second_call bounded_third_call
  by blast

end
